theory Spec2Isabelle
  imports Complex_Main "HOL-Library.Sublist"
begin

section \<open>JavaScript string primitives used by the sitemap module\<close>

text \<open>
  Strings are modelled as \<^typ>\<open>string\<close>. The four primitives below are the
  \<^verbatim>\<open>String.prototype\<close> methods the source calls: \<^verbatim>\<open>startsWith\<close>,
  \<^verbatim>\<open>endsWith\<close>, \<^verbatim>\<open>includes\<close> and \<^verbatim>\<open>slice\<close> (as \<^const>\<open>drop\<close> and
  \<^const>\<open>take\<close>).
\<close>

definition startsWith :: "string \<Rightarrow> string \<Rightarrow> bool" where
  "startsWith s p = (take (length p) s = p)"

definition endsWith :: "string \<Rightarrow> string \<Rightarrow> bool" where
  "endsWith s p = (length p \<le> length s \<and> drop (length s - length p) s = p)"

fun includesStr :: "string \<Rightarrow> string \<Rightarrow> bool" where
  "includesStr [] p = (p = [])"
| "includesStr (c # s) p = (startsWith (c # s) p \<or> includesStr s p)"

text \<open>Decimal digits of a natural number, most significant first.\<close>

definition digitChar :: "nat \<Rightarrow> char" where
  "digitChar d = ''0123456789'' ! d"

fun natToString :: "nat \<Rightarrow> string" where
  "natToString n =
     (if n < 10 then [digitChar n] else natToString (n div 10) @ [digitChar (n mod 10)])"

declare natToString.simps [simp del]

definition isDigit :: "char \<Rightarrow> bool" where
  "isDigit c = (c \<in> set ''0123456789'')"


section \<open>JavaScript numbers\<close>

text \<open>
  A \<^verbatim>\<open>number\<close> is a finite value, \<^verbatim>\<open>NaN\<close> or one of the two infinities. A finite
  number is given by its real value: every double is a real, so what holds for every
  real holds for every double. The two zeros, which the code below never tells apart,
  are both \<open>Finite 0\<close>.
\<close>

datatype jsNumber = Finite real | NaN | PosInfinity | NegInfinity

text \<open>Truthiness of a number: every number but zero and \<^verbatim>\<open>NaN\<close>.\<close>

definition truthyNumber :: "jsNumber \<Rightarrow> bool" where
  "truthyNumber n =
     (case n of Finite x \<Rightarrow> x \<noteq> 0 | NaN \<Rightarrow> False | PosInfinity \<Rightarrow> True | NegInfinity \<Rightarrow> True)"

text \<open>
  \<^verbatim>\<open>Number.isSafeInteger\<close>: a whole number of magnitude below \<open>2\<^sup>5\<^sup>3\<close>. Every such
  number is a double, and no other decimal numeral of as many digits reads back as it.
\<close>

definition isSafeInteger :: "real \<Rightarrow> bool" where
  "isSafeInteger x = (of_int \<lfloor>x\<rfloor> = x \<and> \<bar>x\<bar> < 2 ^ 53)"

text \<open>
  \<^verbatim>\<open>Number::toString\<close> of the language specification prints a positive finite number
  from three integers: the digits \<open>s\<close> of the shortest decimal numeral that reads back
  as the same double, their count \<open>k\<close>, and the position \<open>n\<close> of the decimal point.
  Plain notation is used for \<open>n\<close> from \<open>-5\<close> to \<open>21\<close>, exponent notation outside.
\<close>

definition exponentDigits :: "int \<Rightarrow> string" where
  "exponentDigits e = (if e < 0 then ''-'' else ''+'') @ natToString (nat \<bar>e\<bar>)"

definition formatDecimal :: "nat \<times> int \<Rightarrow> string" where
  "formatDecimal sn =
     (let ds = natToString (fst sn); k = int (length ds); n = snd sn in
      if k \<le> n \<and> n \<le> 21 then ds @ replicate (nat (n - k)) CHR ''0''
      else if 0 < n \<and> n \<le> 21 then take (nat n) ds @ ''.'' @ drop (nat n) ds
      else if - 6 < n \<and> n \<le> 0 then ''0.'' @ replicate (nat (- n)) CHR ''0'' @ ds
      else if k = 1 then ds @ ''e'' @ exponentDigits (n - 1)
      else take 1 ds @ ''.'' @ drop 1 ds @ ''e'' @ exponentDigits (n - 1))"

text \<open>
  The conversion of a number to a string, as a template literal and \<^verbatim>\<open>String\<close>
  apply it. A safe integer prints as its decimal digits. For any other finite number
  the search for the shortest digits depends on the neighbouring doubles; it is the
  parameter \<open>shortest\<close>, which gives \<open>s\<close> and \<open>n\<close> for a positive number.
\<close>

definition numberToString :: "(real \<Rightarrow> nat \<times> int) \<Rightarrow> jsNumber \<Rightarrow> string" where
  "numberToString shortest n =
     (case n of
        NaN \<Rightarrow> ''NaN''
      | PosInfinity \<Rightarrow> ''Infinity''
      | NegInfinity \<Rightarrow> ''-Infinity''
      | Finite x \<Rightarrow>
          (if x < 0 then ''-'' else [])
            @ (if isSafeInteger x then natToString (nat \<lfloor>\<bar>x\<bar>\<rfloor>)
               else formatDecimal (shortest \<bar>x\<bar>)))"

text \<open>
  \<^verbatim>\<open>Number.prototype.toFixed(1)\<close>. A number that is not finite prints as
  \<^const>\<open>numberToString\<close> prints it. Otherwise the sign is split off; a magnitude from
  \<open>10\<^sup>2\<^sup>1\<close> on prints as \<^const>\<open>numberToString\<close> prints it; a smaller one is rounded
  to the nearest tenth, a tie going to the larger one, and printed with one digit
  after the point.
\<close>

definition toFixed1 :: "(real \<Rightarrow> nat \<times> int) \<Rightarrow> jsNumber \<Rightarrow> string" where
  "toFixed1 shortest n =
     (case n of
        Finite x \<Rightarrow>
          (let s = (if x < 0 then ''-'' else []);
               a = \<bar>x\<bar>
           in if 10 ^ 21 \<le> a then s @ numberToString shortest (Finite a)
              else (let k = nat \<lfloor>a * 10 + 1 / 2\<rfloor>
                    in s @ natToString (k div 10) @ ''.'' @ [digitChar (k mod 10)]))
      | NaN \<Rightarrow> numberToString shortest n
      | PosInfinity \<Rightarrow> numberToString shortest n
      | NegInfinity \<Rightarrow> numberToString shortest n)"

text \<open>
  A stand-in for the parameter where a number is evaluated: it knows \<open>10\<^sup>2\<^sup>1\<close>, digit
  \<open>1\<close> with the point after \<open>22\<close> places, and \<open>2.5\<close>, digits \<open>25\<close> with the point after
  one.
\<close>

definition sampleShortest :: "real \<Rightarrow> nat \<times> int" where
  "sampleShortest x = (if x = 10 ^ 21 then (1, 22) else if x = 5 / 2 then (25, 1) else (0, 0))"


section \<open>sitemap.ts: URL formatting and route filtering\<close>

text \<open>
  \<^verbatim>\<open>formatSitemapUrl(url, baseUrl)\<close>: an absolute url is returned as it is; otherwise
  one leading slash is cut from the url (\<^verbatim>\<open>url.slice(1)\<close>), one trailing slash from
  the base (\<^verbatim>\<open>baseUrl.slice(0, -1)\<close>), and the two are joined by a slash.
\<close>

definition cleanUrl :: "string \<Rightarrow> string" where
  "cleanUrl url = (if startsWith url ''/'' then drop 1 url else url)"

definition cleanBaseUrl :: "string \<Rightarrow> string" where
  "cleanBaseUrl baseUrl =
     (if endsWith baseUrl ''/'' then take (length baseUrl - 1) baseUrl else baseUrl)"

definition isAbsolute :: "string \<Rightarrow> bool" where
  "isAbsolute url = (startsWith url ''http://'' \<or> startsWith url ''https://'')"

definition formatSitemapUrl :: "string \<Rightarrow> string \<Rightarrow> string" where
  "formatSitemapUrl url baseUrl =
     (if startsWith url ''http://'' \<or> startsWith url ''https://'' then url
      else cleanBaseUrl baseUrl @ ''/'' @ cleanUrl url)"

text \<open>
  The part of a url in which a double slash is not the scheme separator: for an
  absolute url everything from the second slash of \<^verbatim>\<open>://\<close> on, otherwise the whole
  string.
\<close>

definition afterScheme :: "string \<Rightarrow> string" where
  "afterScheme s =
     (if startsWith s ''http://'' then drop 6 s
      else if startsWith s ''https://'' then drop 7 s
      else s)"

text \<open>
  \<^verbatim>\<open>shouldIncludeInSitemap(url)\<close>:
  \<^verbatim>\<open>!excludePatterns.some((pattern) => url.includes(pattern))\<close>.
\<close>

definition excludePatterns :: "string list" where
  "excludePatterns = [''/preview/'', ''/search'', ''/api/'', ''/_'', ''/admin'']"

definition shouldIncludeInSitemap :: "string \<Rightarrow> bool" where
  "shouldIncludeInSitemap url = (\<not> list_ex (\<lambda>pattern. includesStr url pattern) excludePatterns)"

section \<open>sitemap.ts: entries and documents\<close>

record SitemapEntry =
  url :: string
  lastmod :: "string option"
  changefreq :: "string option"
  priority :: "jsNumber option"

record SitemapIndex =
  sitemap :: string
  index_lastmod :: "string option"

text \<open>
  \<^verbatim>\<open>text.replace(/c/g, r)\<close> for a one-character pattern: every occurrence of the
  character is replaced, left to right.
\<close>

definition replaceAll :: "char \<Rightarrow> string \<Rightarrow> string \<Rightarrow> string" where
  "replaceAll c r text = concat (map (\<lambda>x. if x = c then r else [x]) text)"

definition escapeXml :: "string \<Rightarrow> string" where
  "escapeXml text =
     replaceAll (CHR 0x27) ''&apos;''
       (replaceAll (CHR 0x22) ''&quot;''
         (replaceAll CHR ''>'' ''&gt;''
           (replaceAll CHR ''<'' ''&lt;''
             (replaceAll CHR ''&'' ''&amp;'' text))))"

text \<open>
  \<^verbatim>\<open>generateSitemapEntry(entry)\<close>. The first argument is the parameter of
  \<^const>\<open>numberToString\<close>, which \<^verbatim>\<open>priority.toFixed(1)\<close> needs for a priority of
  magnitude \<open>10\<^sup>2\<^sup>1\<close> or more.
\<close>

definition generateSitemapEntry :: "(real \<Rightarrow> nat \<times> int) \<Rightarrow> SitemapEntry \<Rightarrow> string" where
  "generateSitemapEntry shortest entry =
     (let xml = ''  <url>\<newline>'';
          xml = xml @ ''    <loc>'' @ escapeXml (url entry) @ ''</loc>\<newline>'';
          xml = (case lastmod entry of
                   Some l \<Rightarrow> if l \<noteq> [] then xml @ ''    <lastmod>'' @ escapeXml l @ ''</lastmod>\<newline>''
                             else xml
                 | None \<Rightarrow> xml);
          xml = (case changefreq entry of
                   Some f \<Rightarrow> if f \<noteq> [] then xml @ ''    <changefreq>'' @ escapeXml f @ ''</changefreq>\<newline>''
                             else xml
                 | None \<Rightarrow> xml);
          xml = (case priority entry of
                   Some p \<Rightarrow> xml @ ''    <priority>'' @ toFixed1 shortest p @ ''</priority>\<newline>''
                 | None \<Rightarrow> xml);
          xml = xml @ ''  </url>\<newline>''
      in xml)"

definition generateSitemapIndexEntry :: "SitemapIndex \<Rightarrow> string" where
  "generateSitemapIndexEntry entry =
     (let xml = ''  <sitemap>\<newline>'';
          xml = xml @ ''    <loc>'' @ escapeXml (sitemap entry) @ ''</loc>\<newline>'';
          xml = (case index_lastmod entry of
                   Some l \<Rightarrow> if l \<noteq> [] then xml @ ''    <lastmod>'' @ escapeXml l @ ''</lastmod>\<newline>''
                             else xml
                 | None \<Rightarrow> xml);
          xml = xml @ ''  </sitemap>\<newline>''
      in xml)"

definition generateSitemapXml :: "(real \<Rightarrow> nat \<times> int) \<Rightarrow> SitemapEntry list \<Rightarrow> string" where
  \<open>generateSitemapXml shortest entries =
     (let xml = ''<?xml version="1.0" encoding="UTF-8"?>\<newline>'';
          xml = xml @ ''<urlset xmlns="http://www.sitemaps.org/schemas/sitemap/0.9">\<newline>'';
          xml = foldl (\<lambda>xml entry. xml @ generateSitemapEntry shortest entry) xml entries;
          xml = xml @ ''</urlset>\<newline>''
      in xml)\<close>

definition generateSitemapIndexXml :: "SitemapIndex list \<Rightarrow> string" where
  \<open>generateSitemapIndexXml entries =
     (let xml = ''<?xml version="1.0" encoding="UTF-8"?>\<newline>'';
          xml = xml @ ''<sitemapindex xmlns="http://www.sitemaps.org/schemas/sitemap/0.9">\<newline>'';
          xml = foldl (\<lambda>xml entry. xml @ generateSitemapIndexEntry entry) xml entries;
          xml = xml @ ''</sitemapindex>\<newline>''
      in xml)\<close>

text \<open>
  \<^verbatim>\<open>validateSitemapUrl(url)\<close>. The \<^verbatim>\<open>URL\<close> constructor is a parameter: it gives the
  protocol of a url, \<^const>\<open>None\<close> when it throws, which the source catches.
\<close>

definition validateSitemapUrl :: "(string \<Rightarrow> string option) \<Rightarrow> string \<Rightarrow> bool" where
  "validateSitemapUrl urlProtocol u =
     (case urlProtocol u of
        None \<Rightarrow> False
      | Some protocol \<Rightarrow> protocol = ''http:'' \<or> protocol = ''https:'')"

text \<open>\<^verbatim>\<open>getSitemapBaseUrl()\<close>, on the value of the environment variable \<^verbatim>\<open>SITE_URL\<close>.\<close>

definition getSitemapBaseUrl :: "string option \<Rightarrow> string" where
  "getSitemapBaseUrl env =
     (case env of
        Some s \<Rightarrow> if s \<noteq> [] then s else ''http://localhost:4321''
      | None \<Rightarrow> ''http://localhost:4321'')"


section \<open>sitemap.ts: timestamps\<close>

text \<open>
  A \<^verbatim>\<open>Date\<close> holds a time value: a whole number of milliseconds since the epoch, of
  magnitude at most \<open>8.64 \<times> 10\<^sup>1\<^sup>5\<close>, or \<^verbatim>\<open>NaN\<close> for an invalid date, modelled by
  \<^const>\<open>None\<close>. The calendar functions are those of the ECMAScript specification,
  on days and years as integers.
\<close>

definition msPerDay :: int where
  "msPerDay = 86400000"

definition maxTimeValue :: int where
  "maxTimeValue = 8640000000000000"

definition validTimeValue :: "int \<Rightarrow> bool" where
  "validTimeValue t = (\<bar>t\<bar> \<le> maxTimeValue)"

definition dayOf :: "int \<Rightarrow> int" where
  "dayOf t = t div msPerDay"

definition dayFromYear :: "int \<Rightarrow> int" where
  "dayFromYear y =
     365 * (y - 1970) + (y - 1969) div 4 - (y - 1901) div 100 + (y - 1601) div 400"

definition daysInYear :: "int \<Rightarrow> int" where
  "daysInYear y =
     (if y mod 4 \<noteq> 0 then 365 else if y mod 100 \<noteq> 0 then 366
      else if y mod 400 \<noteq> 0 then 365 else 366)"

text \<open>
  \<^verbatim>\<open>YearFromTime\<close> is the largest year that starts on or before the day. The search
  starts from a year that does and climbs.
\<close>

function yearUpFrom :: "int \<Rightarrow> int \<Rightarrow> int" where
  "yearUpFrom d y = (if dayFromYear (y + 1) \<le> d then yearUpFrom d (y + 1) else y)"
  by pat_completeness auto
termination
proof (relation "measure (\<lambda>(d, y). nat (d + 1 - dayFromYear y))")
  show "wf (measure (\<lambda>(d, y). nat (d + 1 - dayFromYear y)))"
    by simp
next
  fix d y :: int
  assume le: "dayFromYear (y + 1) \<le> d"
  define p q r where "p = (y - 1969) div 4" and "q = (y - 1901) div 100" and "r = (y - 1601) div 400"
  define p' q' r' where "p' = (y + 1 - 1969) div 4" and "q' = (y + 1 - 1901) div 100"
    and "r' = (y + 1 - 1601) div 400"
  have a: "p \<le> p'"
    unfolding p_def p'_def by (rule zdiv_mono1) simp_all
  have b: "q' \<le> q + 1"
    unfolding q_def q'_def by linarith
  have c: "r \<le> r'"
    unfolding r_def r'_def by (rule zdiv_mono1) simp_all
  have "365 * (y - 1970) + p - q + r < 365 * (y + 1 - 1970) + p' - q' + r'"
    using a b c by (simp add: algebra_simps)
  then have "dayFromYear y < dayFromYear (y + 1)"
    unfolding dayFromYear_def p_def q_def r_def p'_def q'_def r'_def .
  then show "((d, y + 1), (d, y)) \<in> measure (\<lambda>(d, y). nat (d + 1 - dayFromYear y))"
    using le by simp
qed

declare yearUpFrom.simps [simp del]

definition yearFromDay :: "int \<Rightarrow> int" where
  "yearFromDay d = yearUpFrom d (1970 + min (d div 365) (d div 366))"

definition yearFromTime :: "int \<Rightarrow> int" where
  "yearFromTime t = yearFromDay (dayOf t)"

definition inLeapYear :: "int \<Rightarrow> int" where
  "inLeapYear t = (if daysInYear (yearFromTime t) = 366 then 1 else 0)"

definition dayWithinYear :: "int \<Rightarrow> int" where
  "dayWithinYear t = dayOf t - dayFromYear (yearFromTime t)"

definition monthFromTime :: "int \<Rightarrow> int" where
  "monthFromTime t =
     (let d = dayWithinYear t; l = inLeapYear t in
      if d < 31 then 0 else if d < 59 + l then 1 else if d < 90 + l then 2
      else if d < 120 + l then 3 else if d < 151 + l then 4 else if d < 181 + l then 5
      else if d < 212 + l then 6 else if d < 243 + l then 7 else if d < 273 + l then 8
      else if d < 304 + l then 9 else if d < 334 + l then 10 else 11)"

definition dateFromTime :: "int \<Rightarrow> int" where
  "dateFromTime t =
     (let d = dayWithinYear t; l = inLeapYear t; m = monthFromTime t in
      if m = 0 then d + 1 else if m = 1 then d - 30 else if m = 2 then d - 58 - l
      else if m = 3 then d - 89 - l else if m = 4 then d - 119 - l else if m = 5 then d - 150 - l
      else if m = 6 then d - 180 - l else if m = 7 then d - 211 - l else if m = 8 then d - 242 - l
      else if m = 9 then d - 272 - l else if m = 10 then d - 303 - l else d - 333 - l)"

definition hourFromTime :: "int \<Rightarrow> int" where
  "hourFromTime t = (t div 3600000) mod 24"

definition minFromTime :: "int \<Rightarrow> int" where
  "minFromTime t = (t div 60000) mod 60"

definition secFromTime :: "int \<Rightarrow> int" where
  "secFromTime t = (t div 1000) mod 60"

definition msFromTime :: "int \<Rightarrow> int" where
  "msFromTime t = t mod 1000"

text \<open>A number in a field of fixed width, padded with zeros on the left.\<close>

fun fixedDigits :: "nat \<Rightarrow> nat \<Rightarrow> string" where
  "fixedDigits 0 n = []"
| "fixedDigits (Suc w) n = fixedDigits w (n div 10) @ [digitChar (n mod 10)]"

text \<open>
  \<^verbatim>\<open>Date.prototype.toISOString\<close> on a valid time value: four digits for a year from 0
  to 9999, otherwise a sign and six digits.
\<close>

definition yearString :: "int \<Rightarrow> string" where
  "yearString y =
     (if 0 \<le> y \<and> y \<le> 9999 then fixedDigits 4 (nat y)
      else (if y < 0 then ''-'' else ''+'') @ fixedDigits 6 (nat \<bar>y\<bar>))"

definition toISOString :: "int \<Rightarrow> string" where
  "toISOString t =
     yearString (yearFromTime t) @ ''-'' @ fixedDigits 2 (nat (monthFromTime t + 1)) @ ''-''
       @ fixedDigits 2 (nat (dateFromTime t)) @ ''T'' @ fixedDigits 2 (nat (hourFromTime t)) @ '':''
       @ fixedDigits 2 (nat (minFromTime t)) @ '':'' @ fixedDigits 2 (nat (secFromTime t)) @ ''.''
       @ fixedDigits 3 (nat (msFromTime t)) @ ''Z''"

text \<open>
  The format patterns of the specification: the letters \<^verbatim>\<open>Y M D H m s\<close> stand for
  one decimal digit each, every other character for itself.
\<close>

definition isPlaceholder :: "char \<Rightarrow> bool" where
  "isPlaceholder c = (c \<in> set ''YMDHms'')"

fun matchesFormat :: "string \<Rightarrow> string \<Rightarrow> bool" where
  "matchesFormat [] [] = True"
| "matchesFormat (f # fs) (c # cs) =
     ((if isPlaceholder f then isDigit c else c = f) \<and> matchesFormat fs cs)"
| "matchesFormat _ _ = False"

text \<open>The time values of the years 0 to 9999.\<close>

definition fourDigitYear :: "int \<Rightarrow> bool" where
  "fourDigitYear t = (- 62167219200000 \<le> t \<and> t \<le> 253402300799999)"

datatype Timestamp = Str string | DateObj "int option"

datatype error = InvalidTimestamp string

text \<open>
  \<^verbatim>\<open>formatSitemapTimestamp(timestamp)\<close>. The parser of the \<^verbatim>\<open>Date\<close> constructor is a
  parameter: it gives the time value of a string, \<^const>\<open>None\<close> when the string does
  not parse. A \<^verbatim>\<open>Date\<close> argument is taken as it is. The thrown \<^verbatim>\<open>Error\<close> carries the
  message of the source, in which an invalid \<^verbatim>\<open>Date\<close> prints as \<^verbatim>\<open>Invalid Date\<close>.
\<close>

definition timeValue :: "(string \<Rightarrow> int option) \<Rightarrow> Timestamp \<Rightarrow> int option" where
  "timeValue dateParse timestamp = (case timestamp of Str s \<Rightarrow> dateParse s | DateObj d \<Rightarrow> d)"

definition timestampText :: "Timestamp \<Rightarrow> string" where
  "timestampText timestamp = (case timestamp of Str s \<Rightarrow> s | DateObj d \<Rightarrow> ''Invalid Date'')"

definition formatSitemapTimestamp :: "(string \<Rightarrow> int option) \<Rightarrow> Timestamp \<Rightarrow> error + string" where
  "formatSitemapTimestamp dateParse timestamp =
     (case timeValue dateParse timestamp of
        None \<Rightarrow> Inl (InvalidTimestamp (''Invalid timestamp: '' @ timestampText timestamp))
      | Some t \<Rightarrow> Inr (toISOString t))"

text \<open>A stand-in for the parser of the \<^verbatim>\<open>Date\<close> constructor that knows one string.\<close>

definition sampleDateParse :: "string \<Rightarrow> int option" where
  "sampleDateParse s = (if s = ''2024-01-15T10:00:00Z'' then Some 1705312800000 else None)"

section \<open>contentful.ts: the content records\<close>

record ContentfulSys =
  sys_id :: string
  createdAt :: string
  updatedAt :: string

record ImageSize =
  width :: jsNumber
  height :: jsNumber

record FileDetails =
  file_size :: jsNumber
  details_image :: "ImageSize option"

record AssetFile =
  file_url :: string
  details :: FileDetails
  fileName :: string
  contentType :: string

record AssetFields =
  asset_title :: string
  asset_description :: "string option"
  asset_file :: AssetFile

record ContentfulAsset =
  asset_sys :: ContentfulSys
  asset_fields :: AssetFields

record Author =
  author_sys :: ContentfulSys
  author_name :: string
  author_slug :: string
  bio :: "string option"
  avatar :: "ContentfulAsset option"

record Category =
  category_sys :: ContentfulSys
  category_name :: string
  category_slug :: string
  category_description :: string
  category_featuredImage :: "ContentfulAsset option"
  color :: string

record BlogPost =
  post_sys :: ContentfulSys
  post_title :: string
  post_slug :: string
  excerpt :: string
  post_content :: string
  post_featuredImage :: "ContentfulAsset option"
  author :: Author
  category :: "Category option"
  tags :: "string list option"
  publishedAt :: string

record GuideStep =
  step_title :: string
  step_content :: string
  step_image :: "ContentfulAsset option"

datatype Difficulty = beginner | intermediate | advanced

record Guide =
  guide_sys :: ContentfulSys
  guide_title :: string
  guide_slug :: string
  guide_description :: string
  guide_content :: string
  difficulty :: Difficulty
  estimatedTime :: jsNumber
  steps :: "GuideStep list"
  guide_featuredImage :: "ContentfulAsset option"
  guide_category :: "Category option"
  tools :: "string list option"
  guide_publishedAt :: string

record FaqEntry =
  faq_sys :: ContentfulSys
  question :: string
  answer :: string
  faq_category :: string
  order :: jsNumber

record Breadcrumb =
  crumb_name :: string
  crumb_url :: string

section \<open>schemas.ts: the Schema.org objects\<close>

record ImageRef =
  ref_type :: string
  ref_url :: string

record OrganizationSchema =
  org_context :: string
  org_type :: string
  org_name :: string
  org_url :: string
  logo :: "ImageRef option"
  sameAs :: "string list option"

record EntryPoint =
  ep_type :: string
  urlTemplate :: string

record SearchAction =
  sa_type :: string
  target :: EntryPoint
  query_input :: string

record WebSiteSchema =
  ws_context :: string
  ws_type :: string
  ws_name :: string
  ws_url :: string
  potentialAction :: "SearchAction option"

record Person =
  person_type :: string
  person_name :: string
  person_url :: "string option"

record WebPageRef =
  wp_type :: string
  wp_id :: string

record SizedImage =
  si_type :: string
  si_url :: string
  si_width :: "jsNumber option"
  si_height :: "jsNumber option"

record BlogPostingSchema =
  bp_context :: string
  bp_type :: string
  headline :: string
  bp_description :: string
  bp_author :: Person
  publisher :: OrganizationSchema
  datePublished :: string
  dateModified :: string
  mainEntityOfPage :: WebPageRef
  bp_image :: "SizedImage option"
  articleSection :: "string option"
  bp_keywords :: "string list option"

record HowToStep =
  hs_type :: string
  hs_name :: string
  hs_text :: string
  hs_image :: "ImageRef option"

record HowToSchema =
  ht_context :: string
  ht_type :: string
  ht_name :: string
  ht_description :: string
  ht_image :: "ImageRef option"
  totalTime :: "string option"
  step :: "HowToStep list"
  tool :: "string list option"

record ListItem =
  li_type :: string
  position :: nat
  li_name :: string
  item :: string

record BreadcrumbListSchema =
  bl_context :: string
  bl_type :: string
  itemListElement :: "ListItem list"

record Answer =
  ans_type :: string
  ans_text :: string

record Question =
  q_type :: string
  q_name :: string
  acceptedAnswer :: Answer

record FAQPageSchema =
  faq_context :: string
  faq_type :: string
  mainEntity :: "Question list"

record SchemaConfig =
  siteUrl :: string
  siteName :: string
  organizationName :: string
  logoUrl :: "string option"
  socialLinks :: "string list option"

text \<open>
  The generator methods. The configuration held by the class instance is the first
  argument. Each method builds the mandatory part of the object and then adds the
  optional keys under the guards of the source; a JavaScript truthiness test on a
  string is \<open>\<noteq> []\<close>, on a number \<^const>\<open>truthyNumber\<close>, on an optional object
  \<open>\<noteq> None\<close>. The method that prints a number takes the parameter of
  \<^const>\<open>numberToString\<close> first.
\<close>

definition generateOrganizationSchema :: "SchemaConfig \<Rightarrow> OrganizationSchema" where
  "generateOrganizationSchema config =
     (let schema = \<lparr> org_context = ''https://schema.org'', org_type = ''Organization'',
                      org_name = organizationName config, org_url = siteUrl config,
                      logo = None, sameAs = None \<rparr>;
          schema = (case logoUrl config of
                      Some l \<Rightarrow> if l \<noteq> [] then schema\<lparr> logo := Some \<lparr> ref_type = ''ImageObject'', ref_url = l \<rparr> \<rparr>
                                else schema
                    | None \<Rightarrow> schema);
          schema = (case socialLinks config of
                      Some ls \<Rightarrow> if length ls > 0 then schema\<lparr> sameAs := Some ls \<rparr> else schema
                    | None \<Rightarrow> schema)
      in schema)"

definition generateWebSiteSchema :: "SchemaConfig \<Rightarrow> WebSiteSchema" where
  "generateWebSiteSchema config =
     \<lparr> ws_context = ''https://schema.org'', ws_type = ''WebSite'',
       ws_name = siteName config, ws_url = siteUrl config,
       potentialAction = Some \<lparr> sa_type = ''SearchAction'',
         target = \<lparr> ep_type = ''EntryPoint'',
                    urlTemplate = siteUrl config @ ''/search?q={search_term_string}'' \<rparr>,
         query_input = ''required name=search_term_string'' \<rparr> \<rparr>"

definition generateBlogPostingSchema :: "SchemaConfig \<Rightarrow> BlogPost \<Rightarrow> string \<Rightarrow> BlogPostingSchema" where
  "generateBlogPostingSchema config post canonicalUrl =
     (let schema = \<lparr> bp_context = ''https://schema.org'', bp_type = ''BlogPosting'',
                      headline = post_title post, bp_description = excerpt post,
                      bp_author = \<lparr> person_type = ''Person'', person_name = author_name (author post),
                                    person_url = None \<rparr>,
                      publisher = generateOrganizationSchema config,
                      datePublished = publishedAt post,
                      dateModified = updatedAt (post_sys post),
                      mainEntityOfPage = \<lparr> wp_type = ''WebPage'', wp_id = canonicalUrl \<rparr>,
                      bp_image = None, articleSection = None, bp_keywords = None \<rparr>;
          schema = (if author_slug (author post) \<noteq> []
                    then schema\<lparr> bp_author := (bp_author schema)
                           \<lparr> person_url := Some (siteUrl config @ ''/author/'' @ author_slug (author post)) \<rparr> \<rparr>
                    else schema);
          schema = (case post_featuredImage post of
                      Some img \<Rightarrow>
                        (let im = \<lparr> si_type = ''ImageObject'',
                                    si_url = (if startsWith (file_url (asset_file (asset_fields img))) ''http''
                                              then file_url (asset_file (asset_fields img))
                                              else siteUrl config @ file_url (asset_file (asset_fields img))),
                                    si_width = None, si_height = None \<rparr>;
                             im = (case details_image (details (asset_file (asset_fields img))) of
                                     Some d \<Rightarrow> im\<lparr> si_width := Some (width d), si_height := Some (height d) \<rparr>
                                   | None \<Rightarrow> im)
                         in schema\<lparr> bp_image := Some im \<rparr>)
                    | None \<Rightarrow> schema);
          schema = (case category post of
                      Some c \<Rightarrow> schema\<lparr> articleSection := Some (category_name c) \<rparr>
                    | None \<Rightarrow> schema);
          schema = (case tags post of
                      Some ts \<Rightarrow> if length ts > 0 then schema\<lparr> bp_keywords := Some ts \<rparr> else schema
                    | None \<Rightarrow> schema)
      in schema)"

text \<open>The arrow function that \<^verbatim>\<open>generateHowToSchema\<close> maps over the steps.\<close>

definition generateHowToStep :: "SchemaConfig \<Rightarrow> GuideStep \<Rightarrow> HowToStep" where
  "generateHowToStep config s =
     (let howToStep = \<lparr> hs_type = ''HowToStep'', hs_name = step_title s, hs_text = step_content s,
                         hs_image = None \<rparr>
      in case step_image s of
           Some img \<Rightarrow> howToStep\<lparr> hs_image := Some \<lparr> ref_type = ''ImageObject'',
                          ref_url = (if startsWith (file_url (asset_file (asset_fields img))) ''http''
                                     then file_url (asset_file (asset_fields img))
                                     else siteUrl config @ file_url (asset_file (asset_fields img))) \<rparr> \<rparr>
         | None \<Rightarrow> howToStep)"

definition generateHowToSchema ::
  "(real \<Rightarrow> nat \<times> int) \<Rightarrow> SchemaConfig \<Rightarrow> Guide \<Rightarrow> HowToSchema" where
  "generateHowToSchema shortest config guide =
     (let schema = \<lparr> ht_context = ''https://schema.org'', ht_type = ''HowTo'',
                      ht_name = guide_title guide, ht_description = guide_description guide,
                      ht_image = None, totalTime = None,
                      step = map (generateHowToStep config) (steps guide),
                      tool = None \<rparr>;
          schema = (case guide_featuredImage guide of
                      Some img \<Rightarrow> schema\<lparr> ht_image := Some \<lparr> ref_type = ''ImageObject'',
                          ref_url = (if startsWith (file_url (asset_file (asset_fields img))) ''http''
                                     then file_url (asset_file (asset_fields img))
                                     else siteUrl config @ file_url (asset_file (asset_fields img))) \<rparr> \<rparr>
                    | None \<Rightarrow> schema);
          schema = (if truthyNumber (estimatedTime guide)
                    then schema\<lparr> totalTime :=
                           Some (''PT'' @ numberToString shortest (estimatedTime guide) @ ''M'') \<rparr>
                    else schema);
          schema = (case tools guide of
                      Some ts \<Rightarrow> if length ts > 0 then schema\<lparr> tool := Some ts \<rparr> else schema
                    | None \<Rightarrow> schema)
      in schema)"

definition generateBreadcrumbListSchema :: "SchemaConfig \<Rightarrow> Breadcrumb list \<Rightarrow> BreadcrumbListSchema" where
  "generateBreadcrumbListSchema config breadcrumbs =
     \<lparr> bl_context = ''https://schema.org'', bl_type = ''BreadcrumbList'',
       itemListElement = map (\<lambda>(index, crumb).
           \<lparr> li_type = ''ListItem'', position = index + 1, li_name = crumb_name crumb,
             item = (if startsWith (crumb_url crumb) ''http'' then crumb_url crumb
                     else siteUrl config @ crumb_url crumb) \<rparr>)
         (enumerate 0 breadcrumbs) \<rparr>"

definition generateFAQPageSchema :: "FaqEntry list \<Rightarrow> FAQPageSchema" where
  "generateFAQPageSchema faqEntries =
     \<lparr> faq_context = ''https://schema.org'', faq_type = ''FAQPage'',
       mainEntity = map (\<lambda>entry.
           \<lparr> q_type = ''Question'', q_name = question entry,
             acceptedAnswer = \<lparr> ans_type = ''Answer'', ans_text = answer entry \<rparr> \<rparr>) faqEntries \<rparr>"

text \<open>Sample records, in the shape of the mock data set.\<close>

definition sampleSys :: ContentfulSys where
  "sampleSys = \<lparr> sys_id = ''post-1'', createdAt = ''2024-01-10T09:00:00.000Z'',
                 updatedAt = ''2024-01-20T14:30:00.000Z'' \<rparr>"

definition sampleAsset :: ContentfulAsset where
  "sampleAsset = \<lparr> asset_sys = sampleSys,
     asset_fields = \<lparr> asset_title = ''Hero'', asset_description = None,
       asset_file = \<lparr> file_url = ''/images/hero.jpg'',
                      details = \<lparr> file_size = Finite 1024, details_image = None \<rparr>,
                      fileName = ''hero.jpg'', contentType = ''image/jpeg'' \<rparr> \<rparr> \<rparr>"

definition sampleAuthor :: Author where
  "sampleAuthor = \<lparr> author_sys = sampleSys, author_name = ''Alex Rivera'', author_slug = ''alex-rivera'',
                    bio = None, avatar = None \<rparr>"

definition sampleCategory :: Category where
  "sampleCategory = \<lparr> category_sys = sampleSys, category_name = ''Performance'',
                      category_slug = ''performance'', category_description = ''Core Web Vitals'',
                      category_featuredImage = None, color = ''#3B82F6'' \<rparr>"

definition samplePost :: BlogPost where
  "samplePost = \<lparr> post_sys = sampleSys, post_title = ''Optimizing LCP'', post_slug = ''optimizing-lcp'',
                  excerpt = ''How to improve LCP'', post_content = ''...'',
                  post_featuredImage = Some sampleAsset, author = sampleAuthor,
                  category = Some sampleCategory, tags = Some [''lcp'', ''performance''],
                  publishedAt = ''2024-01-15T10:00:00.000Z'' \<rparr>"

definition sampleGuide :: Guide where
  "sampleGuide = \<lparr> guide_sys = sampleSys, guide_title = ''Set up monitoring'',
                   guide_slug = ''set-up-monitoring'', guide_description = ''Step by step'',
                   guide_content = ''...'', difficulty = beginner, estimatedTime = Finite 45,
                   steps = [\<lparr> step_title = ''Install'', step_content = ''Install the package'',
                              step_image = None \<rparr>,
                            \<lparr> step_title = ''Configure'', step_content = ''Edit the config'',
                              step_image = Some sampleAsset \<rparr>],
                   guide_featuredImage = None, guide_category = Some sampleCategory,
                   tools = Some [''Lighthouse''], guide_publishedAt = ''2024-01-15T10:00:00.000Z'' \<rparr>"

definition sampleConfig :: SchemaConfig where
  "sampleConfig = \<lparr> siteUrl = ''http://localhost:4321'', siteName = ''Technical SEO CWV Astro Lab'',
                    organizationName = ''Technical SEO Lab'',
                    logoUrl = Some ''http://localhost:4321/images/logo.png'',
                    socialLinks = Some [''https://github.com/technical-seo-lab''] \<rparr>"

definition bareConfig :: SchemaConfig where
  "bareConfig = sampleConfig\<lparr> logoUrl := Some [], socialLinks := None \<rparr>"

definition barePost :: BlogPost where
  "barePost = samplePost\<lparr> author := sampleAuthor\<lparr> author_slug := [] \<rparr>,
                           category := None, tags := Some [] \<rparr>"

definition bareGuide :: Guide where
  "bareGuide = sampleGuide\<lparr> estimatedTime := Finite 0, tools := Some [] \<rparr>"

section \<open>Notions for the sitemap properties\<close>

text \<open>The single pass that the five replacements of \<^const>\<open>escapeXml\<close> amount to.\<close>

definition escapeChar :: "char \<Rightarrow> string" where
  "escapeChar c =
     (if c = CHR ''&'' then ''&amp;''
      else if c = CHR ''<'' then ''&lt;''
      else if c = CHR ''>'' then ''&gt;''
      else if c = CHR 0x22 then ''&quot;''
      else if c = CHR 0x27 then ''&apos;''
      else [c])"

text \<open>
  The shape \<^verbatim>\<open>digits.digit\<close> with an optional leading minus sign: at least one digit
  before the point and exactly one after it.
\<close>

definition oneDecimalDigit :: "string \<Rightarrow> bool" where
  "oneDecimalDigit s =
     (case rev (if startsWith s ''-'' then drop 1 s else s) of
        d # p # ds \<Rightarrow> isDigit d \<and> p = CHR ''.'' \<and> ds \<noteq> [] \<and> list_all isDigit ds
      | _ \<Rightarrow> False)"

text \<open>
  Reading a decimal numeral: the number that a string of digits denotes. A numeral is
  canonical when it has at least one digit and no leading zero besides the numeral
  \<^verbatim>\<open>0\<close> itself.
\<close>

definition digitValue :: "char \<Rightarrow> nat" where
  "digitValue c = of_char c - 48"

definition decimalValue :: "string \<Rightarrow> nat" where
  "decimalValue ds = foldl (\<lambda>n c. 10 * n + digitValue c) 0 ds"

definition canonicalDigits :: "string \<Rightarrow> bool" where
  "canonicalDigits ds =
     (ds \<noteq> [] \<and> list_all isDigit ds \<and> (hd ds = CHR ''0'' \<longrightarrow> ds = ''0''))"

text \<open>
  The characters a printed number can consist of: digits, a point, a sign, the letter
  of the exponent, and the letters of \<^verbatim>\<open>NaN\<close> and \<^verbatim>\<open>Infinity\<close>.
\<close>

definition numeralChar :: "char \<Rightarrow> bool" where
  "numeralChar c = (c \<in> set ''0123456789.e+-NaInfity'')"

text \<open>The number that the literal \<^verbatim>\<open>0.8\<close> denotes: the nearest double.\<close>

definition eightTenths :: real where
  "eightTenths = 3602879701896397 / 4503599627370496"

definition pricedEntry :: SitemapEntry where
  "pricedEntry = \<lparr> url = ''https://e.com/p?a=1&b=2'', lastmod = None, changefreq = None,
                    priority = Some (Finite eightTenths) \<rparr>"

definition fullEntry :: SitemapEntry where
  "fullEntry = \<lparr> url = ''https://example.com/page'', lastmod = Some ''2024-01-15T10:00:00.000Z'',
                  changefreq = Some ''weekly'', priority = Some (Finite eightTenths) \<rparr>"

definition emptyFieldsEntry :: SitemapEntry where
  "emptyFieldsEntry = \<lparr> url = ''https://e.com/p'', lastmod = Some [], changefreq = Some [],
                         priority = Some (Finite 0) \<rparr>"

definition nanEntry :: SitemapEntry where
  "nanEntry = \<lparr> url = ''https://e.com/p'', lastmod = None, changefreq = None,
                 priority = Some NaN \<rparr>"

text \<open>
  The characters that XML 1.0 allows in a document (production \<^verbatim>\<open>Char\<close>), among the
  code points below 256: tab, line feed, carriage return, and everything from the
  space on. An entry whose url holds the control character \<^verbatim>\<open>U+0001\<close>, and one whose
  url holds a carriage return.
\<close>

definition xmlChar :: "char \<Rightarrow> bool" where
  "xmlChar c = (c = CHR 0x09 \<or> c = CHR 0x0A \<or> c = CHR 0x0D \<or> 32 \<le> (of_char c :: nat))"

definition controlEntry :: SitemapEntry where
  "controlEntry = \<lparr> url = ''https://e.com/a'' @ [CHR 0x01] @ ''b'', lastmod = None,
                     changefreq = None, priority = None \<rparr>"

definition carriageReturnEntry :: SitemapEntry where
  "carriageReturnEntry = \<lparr> url = ''https://e.com/a'' @ [CHR 0x0D] @ ''b'', lastmod = None,
                            changefreq = None, priority = None \<rparr>"

text \<open>The optional lines of a fragment. They only serve the proofs.\<close>

definition lastmodPart :: "string option \<Rightarrow> string" where
  "lastmodPart m = (case m of
       Some l \<Rightarrow> if l \<noteq> [] then ''    <lastmod>'' @ escapeXml l @ ''</lastmod>\<newline>'' else []
     | None \<Rightarrow> [])"

definition changefreqPart :: "string option \<Rightarrow> string" where
  "changefreqPart m = (case m of
       Some f \<Rightarrow> if f \<noteq> [] then ''    <changefreq>'' @ escapeXml f @ ''</changefreq>\<newline>'' else []
     | None \<Rightarrow> [])"

definition priorityPart :: "(real \<Rightarrow> nat \<times> int) \<Rightarrow> jsNumber option \<Rightarrow> string" where
  "priorityPart shortest m = (case m of
       Some p \<Rightarrow> ''    <priority>'' @ toFixed1 shortest p @ ''</priority>\<newline>''
     | None \<Rightarrow> [])"

section \<open>Facts about the string primitives\<close>

lemma startsWith_prefix: "startsWith s p = prefix p s"
  unfolding startsWith_def prefix_def
  by (metis append_eq_conv_conj append_take_drop_id)

lemma endsWith_suffix: "endsWith s p = suffix p s"
  unfolding endsWith_def suffix_def
  by (metis append_eq_conv_conj append_take_drop_id diff_add_inverse2 le_add2 length_append)

lemma includesStr_sublist: "includesStr s p = sublist p s"
  by (induction s) (auto simp: startsWith_prefix sublist_Cons_right)

lemma includesStr_iff: "includesStr s p \<longleftrightarrow> (\<exists>xs ys. s = xs @ p @ ys)"
  by (simp add: includesStr_sublist sublist_def)

lemma includesStr_appendI: "includesStr (xs @ p @ ys) p"
  unfolding includesStr_iff by blast

section \<open>Route filtering\<close>

lemma shouldInclude_iff:
  "shouldIncludeInSitemap u = False \<longleftrightarrow> (\<exists>p \<in> set excludePatterns. includesStr u p)"
  by (simp add: shouldIncludeInSitemap_def list_ex_iff)

lemma set_excludePatterns:
  "set excludePatterns = {''/preview/'', ''/search'', ''/api/'', ''/_'', ''/admin''}"
  by (simp add: excludePatterns_def)

text \<open>
  C9. \<^const>\<open>shouldIncludeInSitemap\<close> is a total boolean function (the source has
  no failing branch, so the model has none), and it answers false exactly for the urls
  that contain one of the five patterns somewhere, whatever surrounds the occurrence:
  no path segmentation takes place. In particular every url with
  \<^verbatim>\<open>/blog/admin-tips\<close> in it is excluded.
\<close>

theorem shouldIncludeInSitemap_substring:
  "(shouldIncludeInSitemap u = False \<longleftrightarrow>
      (\<exists>p xs ys. p \<in> {''/preview/'', ''/search'', ''/api/'', ''/_'', ''/admin''} \<and> u = xs @ p @ ys))
   \<and> shouldIncludeInSitemap (pre @ ''/blog/admin-tips'' @ post) = False"
proof
  show "shouldIncludeInSitemap u = False \<longleftrightarrow>
      (\<exists>p xs ys. p \<in> {''/preview/'', ''/search'', ''/api/'', ''/_'', ''/admin''} \<and> u = xs @ p @ ys)"
    unfolding shouldInclude_iff set_excludePatterns [symmetric] includesStr_iff
    by blast
next
  have "pre @ ''/blog/admin-tips'' @ post = (pre @ ''/blog'') @ ''/admin'' @ (''-tips'' @ post)"
    by simp
  then have "includesStr (pre @ ''/blog/admin-tips'' @ post) ''/admin''"
    using includesStr_appendI [of "pre @ ''/blog''" "''/admin''" "''-tips'' @ post"] by simp
  moreover have "''/admin'' \<in> set excludePatterns"
    by (simp add: excludePatterns_def)
  ultimately show "shouldIncludeInSitemap (pre @ ''/blog/admin-tips'' @ post) = False"
    unfolding shouldInclude_iff by blast
qed


text \<open>The four examples of the specification.\<close>

lemma shouldIncludeInSitemap_examples:
  "shouldIncludeInSitemap ''https://x/blog/post''"
  "\<not> shouldIncludeInSitemap ''https://x/preview/blog/post''"
  "\<not> shouldIncludeInSitemap ''https://x/search''"
  "\<not> shouldIncludeInSitemap ''https://x/admin/d''"
  by (simp_all add: shouldIncludeInSitemap_def excludePatterns_def startsWith_def)

theorem shouldIncludeInSitemap_substring_witness:
  "shouldIncludeInSitemap ''https://x/blog/admin-tips'' = False
   \<and> (\<exists>p xs ys. p \<in> {''/preview/'', ''/search'', ''/api/'', ''/_'', ''/admin''}
           \<and> ''https://x/admin/d'' = xs @ p @ ys)"
proof -
  note t = shouldIncludeInSitemap_substring [of "''https://x/admin/d''" "''https://x''" "''''"]
  have e: "shouldIncludeInSitemap ''https://x/admin/d'' = False"
    by (simp add: shouldIncludeInSitemap_def excludePatterns_def startsWith_def)
  have a: "shouldIncludeInSitemap (''https://x'' @ ''/blog/admin-tips'' @ '''') = False"
    using t by (rule conjunct2)
  have b: "\<exists>p xs ys. p \<in> {''/preview/'', ''/search'', ''/api/'', ''/_'', ''/admin''}
           \<and> ''https://x/admin/d'' = xs @ p @ ys"
    using conjunct1 [OF t] e by (rule iffD1)
  have c: "''https://x'' @ ''/blog/admin-tips'' @ '''' = ''https://x/blog/admin-tips''"
    by simp
  show ?thesis using a b unfolding c by (rule conjI)
qed

section \<open>URL formatting\<close>

lemma startsWith_append: "startsWith s p \<Longrightarrow> startsWith (s @ t) p"
  by (auto simp: startsWith_prefix)

lemma cleanBaseUrl_slash:
  "endsWith b ''/'' \<Longrightarrow> cleanBaseUrl b @ ''/'' = b"
proof -
  assume e: "endsWith b ''/''"
  then obtain xs where b: "b = xs @ ''/''"
    unfolding endsWith_suffix suffix_def by blast
  show ?thesis unfolding cleanBaseUrl_def using e by (simp add: b)
qed

lemma format_relative:
  "\<not> isAbsolute u \<Longrightarrow> formatSitemapUrl u b = cleanBaseUrl b @ ''/'' @ cleanUrl u"
  by (simp add: formatSitemapUrl_def isAbsolute_def)

lemma format_absolute: "isAbsolute u \<Longrightarrow> formatSitemapUrl u b = u"
  by (simp add: formatSitemapUrl_def isAbsolute_def)

lemma isAbsolute_append: "isAbsolute s \<Longrightarrow> isAbsolute (s @ t)"
  by (auto simp: isAbsolute_def startsWith_append)

lemma format_isAbsolute:
  assumes "isAbsolute b"
  shows "isAbsolute (formatSitemapUrl u b)"
proof (cases "isAbsolute u")
  case True
  then show ?thesis by (simp add: format_absolute)
next
  case False
  show ?thesis
  proof (cases "endsWith b ''/''")
    case True
    have "formatSitemapUrl u b = (cleanBaseUrl b @ ''/'') @ cleanUrl u"
      using False by (simp add: format_relative)
    also have "\<dots> = b @ cleanUrl u"
      using True by (simp only: cleanBaseUrl_slash)
    finally show ?thesis using assms by (simp add: isAbsolute_append)
  next
    case e: False
    have "formatSitemapUrl u b = b @ (''/'' @ cleanUrl u)"
      using False e by (simp add: format_relative cleanBaseUrl_def)
    then show ?thesis using assms by (simp only: isAbsolute_append)
  qed
qed

text \<open>
  C4, as the code has it. An absolute url is returned unchanged whatever the base is.
  Formatting twice equals formatting once whenever the base itself is absolute: the
  first result is then absolute and the second call returns it as it is.
\<close>

theorem formatSitemapUrl_idempotent:
  "(isAbsolute b \<longrightarrow> formatSitemapUrl (formatSitemapUrl u b) b = formatSitemapUrl u b)
   \<and> (isAbsolute v \<longrightarrow> formatSitemapUrl v c = v)"
  using format_isAbsolute [of b u] by (simp add: format_absolute)

theorem formatSitemapUrl_idempotent_witness:
  "isAbsolute ''https://example.com/''
   \<and> formatSitemapUrl (formatSitemapUrl ''/blog/test'' ''https://example.com/'') ''https://example.com/''
       = ''https://example.com/blog/test''
   \<and> isAbsolute ''https://example.com/blog/test''
   \<and> formatSitemapUrl ''https://example.com/blog/test'' ''https://other.com''
       = ''https://example.com/blog/test''"
proof -
  have a: "isAbsolute ''https://example.com/''" and b: "isAbsolute ''https://example.com/blog/test''"
    by (simp_all add: isAbsolute_def startsWith_def)
  have c: "formatSitemapUrl ''/blog/test'' ''https://example.com/'' = ''https://example.com/blog/test''"
    by (simp add: formatSitemapUrl_def startsWith_def endsWith_def cleanBaseUrl_def cleanUrl_def)
  show ?thesis
    using formatSitemapUrl_idempotent
      [of "''https://example.com/''" "''/blog/test''" "''https://example.com/blog/test''" "''https://other.com''"]
      a b c by simp
qed

text \<open>
  C4 as stated fails for a base without scheme: the first result is still relative and
  the second call prepends the base again.
\<close>

theorem formatSitemapUrl_not_idempotent:
  "formatSitemapUrl (formatSitemapUrl ''/blog'' ''example.com'') ''example.com''
     \<noteq> formatSitemapUrl ''/blog'' ''example.com''"
  by (simp add: formatSitemapUrl_def startsWith_def endsWith_def cleanBaseUrl_def cleanUrl_def)


lemma dslash_append:
  "includesStr (X @ Y) ''//'' \<longleftrightarrow>
     includesStr X ''//'' \<or> includesStr Y ''//'' \<or> (endsWith X ''/'' \<and> startsWith Y ''/'')"
proof (induction X)
  case Nil
  then show ?case by (auto simp: endsWith_def)
next
  case (Cons c X)
  show ?case
  proof (cases X)
    case Nil
    then show ?thesis
      by (cases Y) (auto simp: startsWith_def endsWith_def)
  next
    case (Cons d X')
    then show ?thesis
      using Cons.IH by (auto simp: startsWith_def endsWith_def)
  qed
qed

lemma startsWith_append_long:
  "length p \<le> length s \<Longrightarrow> startsWith (s @ t) p = startsWith s p"
  by (simp add: startsWith_def)

lemma startsWith_length: "startsWith s p \<Longrightarrow> length p \<le> length s"
  unfolding startsWith_prefix by (rule prefix_length_le)

lemma scheme_join_http:
  assumes "startsWith (B @ ''/'' @ U) ''http://''" and "\<not> startsWith B ''http://''"
  shows "endsWith B ''/'' \<or> startsWith U ''/''"
proof -
  from assms obtain us where p: "''http://'' = B @ us" and q: "prefix us (''/'' @ U)"
    unfolding startsWith_prefix prefix_append by blast
  from p q show ?thesis
    by (cases U) (auto simp: append_eq_Cons_conv Cons_eq_append_conv endsWith_def startsWith_def prefix_Cons)
qed

lemma scheme_join_https:
  assumes "startsWith (B @ ''/'' @ U) ''https://''" and "\<not> startsWith B ''https://''"
  shows "endsWith B ''/'' \<or> startsWith U ''/''"
proof -
  from assms obtain us where p: "''https://'' = B @ us" and q: "prefix us (''/'' @ U)"
    unfolding startsWith_prefix prefix_append by blast
  from p q show ?thesis
    by (cases U) (auto simp: append_eq_Cons_conv Cons_eq_append_conv endsWith_def startsWith_def prefix_Cons)
qed

lemma afterScheme_join:
  assumes "\<not> endsWith B ''/''" and "\<not> startsWith U ''/''"
  shows "afterScheme (B @ ''/'' @ U) = afterScheme B @ ''/'' @ U"
proof (cases "startsWith B ''http://''")
  case True
  then have "7 \<le> length B" using startsWith_length by fastforce
  then show ?thesis using True by (simp add: afterScheme_def startsWith_append)
next
  case nh: False
  then have n1: "\<not> startsWith (B @ ''/'' @ U) ''http://''"
    using scheme_join_http assms by blast
  show ?thesis
  proof (cases "startsWith B ''https://''")
    case True
    then have "8 \<le> length B" using startsWith_length by fastforce
    then show ?thesis using True nh n1 by (simp add: afterScheme_def startsWith_append)
  next
    case False
    then have "\<not> startsWith (B @ ''/'' @ U) ''https://''"
      using scheme_join_https assms by blast
    then show ?thesis using False nh n1 by (simp add: afterScheme_def)
  qed
qed

lemma afterScheme_endsWith:
  "endsWith (afterScheme B) ''/'' \<Longrightarrow> endsWith B ''/''"
  unfolding afterScheme_def endsWith_suffix
  by (auto split: if_splits intro: suffix_order.trans [OF _ suffix_drop])

text \<open>
  Where the join of a relative url adds no double slash: when the cut base does not
  end in a slash and the cut url neither starts with a slash nor contains a double
  slash, the result has a double slash beyond the scheme separator only if the base
  has one.
\<close>

lemma formatSitemapUrl_relative:
  assumes "\<not> isAbsolute u"
  shows "formatSitemapUrl u b = cleanBaseUrl b @ ''/'' @ cleanUrl u
    \<and> startsWith (formatSitemapUrl u b) (cleanBaseUrl b)
    \<and> (\<not> endsWith (cleanBaseUrl b) ''/'' \<and> \<not> includesStr (afterScheme (cleanBaseUrl b)) ''//''
        \<and> \<not> startsWith (cleanUrl u) ''/'' \<and> \<not> includesStr (cleanUrl u) ''//''
       \<longrightarrow> \<not> includesStr (afterScheme (formatSitemapUrl u b)) ''//'')"
proof -
  have eq: "formatSitemapUrl u b = cleanBaseUrl b @ ''/'' @ cleanUrl u"
    using assms by (rule format_relative)
  have pre: "startsWith (formatSitemapUrl u b) (cleanBaseUrl b)"
    unfolding eq startsWith_prefix by simp
  have ds: "\<not> includesStr (afterScheme (formatSitemapUrl u b)) ''//''"
    if h: "\<not> endsWith (cleanBaseUrl b) ''/''" "\<not> includesStr (afterScheme (cleanBaseUrl b)) ''//''"
      "\<not> startsWith (cleanUrl u) ''/''" "\<not> includesStr (cleanUrl u) ''//''"
  proof -
    have a: "afterScheme (formatSitemapUrl u b) = afterScheme (cleanBaseUrl b) @ (''/'' @ cleanUrl u)"
      unfolding eq using h(1) h(3) by (rule afterScheme_join)
    have b: "\<not> includesStr (''/'' @ cleanUrl u) ''//''"
      using h(3) h(4) by (simp add: startsWith_def)
    have c: "\<not> endsWith (afterScheme (cleanBaseUrl b)) ''/''"
      using h(1) afterScheme_endsWith by blast
    show ?thesis
      unfolding a using dslash_append [of "afterScheme (cleanBaseUrl b)" "''/'' @ cleanUrl u"] h(2) b c
      by blast
  qed
  show ?thesis using eq pre ds by blast
qed


lemma formatSitemapUrl_relative_example:
  "\<not> isAbsolute ''/blog/test''
   \<and> formatSitemapUrl ''/blog/test'' ''https://example.com/'' = ''https://example.com/blog/test''
   \<and> startsWith (formatSitemapUrl ''/blog/test'' ''https://example.com/'') ''https://example.com''
   \<and> \<not> includesStr (afterScheme (formatSitemapUrl ''/blog/test'' ''https://example.com/'')) ''//''"
proof -
  have r: "\<not> isAbsolute ''/blog/test''"
    by (simp add: isAbsolute_def startsWith_def)
  have b: "cleanBaseUrl ''https://example.com/'' = ''https://example.com''"
    by (simp add: cleanBaseUrl_def endsWith_def)
  have u: "cleanUrl ''/blog/test'' = ''blog/test''"
    by (simp add: cleanUrl_def startsWith_def)
  have h: "\<not> endsWith ''https://example.com'' ''/''
      \<and> \<not> includesStr (afterScheme ''https://example.com'') ''//''
      \<and> \<not> startsWith ''blog/test'' ''/'' \<and> \<not> includesStr ''blog/test'' ''//''"
    by (simp add: afterScheme_def endsWith_def startsWith_def)
  note t = formatSitemapUrl_relative [OF r, of "''https://example.com/''", unfolded b u]
  have c1: "formatSitemapUrl ''/blog/test'' ''https://example.com/'' = ''https://example.com/blog/test''"
    using conjunct1 [OF t] by simp
  have c2: "startsWith (formatSitemapUrl ''/blog/test'' ''https://example.com/'') ''https://example.com''"
    using conjunct1 [OF conjunct2 [OF t]] .
  have c3: "\<not> includesStr (afterScheme (formatSitemapUrl ''/blog/test'' ''https://example.com/'')) ''//''"
    using conjunct2 [OF conjunct2 [OF t]] h by (rule mp)
  show ?thesis using r c1 c2 c3 by blast
qed

text \<open>
  C5. The two cuts are there to avoid a double slash, and each removes one slash only.
  A relative url with two leading slashes keeps one of them, which meets the slash of
  the join: the result has a double slash beyond the scheme separator. A base with two
  trailing slashes keeps one of them, so the result does not start with a base free of
  trailing slashes, and it has the double slash again.
\<close>

theorem formatSitemapUrl_double_slash:
  "\<not> isAbsolute ''//x''
   \<and> formatSitemapUrl ''//x'' ''https://e.com'' = ''https://e.com//x''
   \<and> includesStr (afterScheme (formatSitemapUrl ''//x'' ''https://e.com'')) ''//''
   \<and> \<not> isAbsolute ''x''
   \<and> formatSitemapUrl ''x'' ''https://e.com//'' = ''https://e.com//x''
   \<and> endsWith (cleanBaseUrl ''https://e.com//'') ''/''
   \<and> includesStr (afterScheme (formatSitemapUrl ''x'' ''https://e.com//'')) ''//''"
  by (simp add: isAbsolute_def formatSitemapUrl_def afterScheme_def cleanBaseUrl_def
      cleanUrl_def startsWith_def endsWith_def)

section \<open>Sitemap entries\<close>

lemma replaceAll_Nil [simp]: "replaceAll c r [] = []"
  by (simp add: replaceAll_def)

lemma replaceAll_append [simp]: "replaceAll c r (s @ t) = replaceAll c r s @ replaceAll c r t"
  by (simp add: replaceAll_def)

lemma replaceAll_Cons: "replaceAll c r (x # s) = (if x = c then r else [x]) @ replaceAll c r s"
  by (simp add: replaceAll_def)

lemma escapeXml_Nil [simp]: "escapeXml [] = []"
  by (simp add: escapeXml_def)

lemma escapeXml_one: "escapeXml [c] = escapeChar c"
  by (simp add: escapeXml_def escapeChar_def replaceAll_Cons)

lemma escapeXml_append: "escapeXml (s @ t) = escapeXml s @ escapeXml t"
  by (simp add: escapeXml_def)

lemma escapeXml_Cons: "escapeXml (c # s) = escapeChar c @ escapeXml s"
  using escapeXml_append [of "[c]" s] by (simp add: escapeXml_one)

lemma escapeXml_concat: "escapeXml s = concat (map escapeChar s)"
  by (induction s) (simp_all add: escapeXml_Cons)

lemma escapeChar_free:
  "CHR ''<'' \<notin> set (escapeChar c)" "CHR ''>'' \<notin> set (escapeChar c)"
  "CHR 0x22 \<notin> set (escapeChar c)" "CHR 0x27 \<notin> set (escapeChar c)"
  by (auto simp: escapeChar_def)

lemma escapeXml_free:
  "CHR ''<'' \<notin> set (escapeXml s)" "CHR ''>'' \<notin> set (escapeXml s)"
  "CHR 0x22 \<notin> set (escapeXml s)" "CHR 0x27 \<notin> set (escapeXml s)"
  by (simp_all add: escapeXml_concat escapeChar_free)

lemma isDigit_digitChar: "d < 10 \<Longrightarrow> isDigit (digitChar d)"
proof -
  assume "d < 10"
  then have "d \<in> {0, 1, 2, 3, 4, 5, 6, 7, 8, 9}" by auto
  then show ?thesis by (auto simp: isDigit_def digitChar_def)
qed

lemma natToString_digits: "list_all isDigit (natToString n)"
proof (induction n rule: natToString.induct)
  case (1 n)
  show ?case
  proof (cases "n < 10")
    case True
    then show ?thesis by (subst natToString.simps) (simp add: isDigit_digitChar)
  next
    case False
    then show ?thesis
      using 1 by (subst natToString.simps) (simp add: isDigit_digitChar)
  qed
qed

lemma natToString_nonempty: "natToString n \<noteq> []"
  by (subst natToString.simps) simp

lemma isDigit_plain:
  "isDigit c \<Longrightarrow> c \<noteq> CHR ''<'' \<and> c \<noteq> CHR ''>'' \<and> c \<noteq> CHR ''&'' \<and> c \<noteq> CHR ''-'' \<and> c \<noteq> CHR ''.''"
  by (auto simp: isDigit_def)

lemma digits_plain:
  assumes "list_all isDigit ds"
  shows "CHR ''<'' \<notin> set ds" "CHR ''>'' \<notin> set ds" "CHR ''&'' \<notin> set ds" "CHR ''-'' \<notin> set ds"
  using assms isDigit_plain by (auto simp: list_all_iff)

lemma digitChar_plain:
  "d < 10 \<Longrightarrow> digitChar d \<noteq> CHR ''<'' \<and> digitChar d \<noteq> CHR ''>'' \<and> digitChar d \<noteq> CHR ''&''"
  using isDigit_plain [OF isDigit_digitChar] by blast

lemma digitValue_digitChar: "d < 10 \<Longrightarrow> digitValue (digitChar d) = d"
proof -
  assume "d < 10"
  then have "d \<in> {0, 1, 2, 3, 4, 5, 6, 7, 8, 9}" by auto
  then show ?thesis by (auto simp: digitValue_def digitChar_def)
qed

lemma decimalValue_snoc: "decimalValue (ds @ [c]) = 10 * decimalValue ds + digitValue c"
  by (simp add: decimalValue_def)

lemma decimalValue_natToString: "decimalValue (natToString n) = n"
proof (induction n rule: natToString.induct)
  case (1 n)
  show ?case
  proof (cases "n < 10")
    case True
    then show ?thesis
      by (subst natToString.simps) (simp add: decimalValue_def digitValue_digitChar)
  next
    case False
    then have "decimalValue (natToString (n div 10)) = n div 10" using 1 by simp
    then show ?thesis
      using False by (subst natToString.simps) (simp add: decimalValue_snoc digitValue_digitChar)
  qed
qed

lemma digitChar_zero: "d < 10 \<Longrightarrow> (digitChar d = CHR ''0'') = (d = 0)"
proof -
  assume "d < 10"
  then have "d \<in> {0, 1, 2, 3, 4, 5, 6, 7, 8, 9}" by auto
  then show ?thesis by (auto simp: digitChar_def)
qed

lemma natToString_hd: "0 < n \<Longrightarrow> hd (natToString n) \<noteq> CHR ''0''"
proof (induction n rule: natToString.induct)
  case (1 n)
  show ?case
  proof (cases "n < 10")
    case True
    then show ?thesis
      using "1.prems" by (subst natToString.simps) (simp add: digitChar_zero)
  next
    case False
    then have "hd (natToString (n div 10)) \<noteq> CHR ''0''" using 1 by simp
    then show ?thesis
      using False natToString_nonempty [of "n div 10"] by (subst natToString.simps) simp
  qed
qed

lemma natToString_zero: "natToString 0 = ''0''"
  by (simp add: natToString.simps digitChar_def)

lemma canonicalDigits_natToString: "canonicalDigits (natToString n)"
proof (cases "n = 0")
  case True
  then show ?thesis by (simp add: canonicalDigits_def natToString_zero isDigit_def)
next
  case False
  then show ?thesis
    using natToString_hd [of n] natToString_digits [of n] natToString_nonempty [of n]
    by (simp add: canonicalDigits_def)
qed

text \<open>
  Whatever the parameter gives, a printed number consists of the characters of
  \<^const>\<open>numeralChar\<close>: it holds no markup character.
\<close>

lemma isDigit_numeralChar: "isDigit c \<Longrightarrow> numeralChar c"
  by (auto simp: isDigit_def numeralChar_def)

lemma natToString_numeral: "list_all numeralChar (natToString n)"
  using natToString_digits [of n] isDigit_numeralChar by (auto simp: list_all_iff)

lemma numeral_take: "list_all numeralChar s \<Longrightarrow> list_all numeralChar (take i s)"
  by (auto simp: list_all_iff dest: in_set_takeD)

lemma numeral_drop: "list_all numeralChar s \<Longrightarrow> list_all numeralChar (drop i s)"
  by (auto simp: list_all_iff dest: in_set_dropD)

lemma numeral_zeros: "list_all numeralChar (replicate i CHR ''0'')"
  by (simp add: list_all_iff numeralChar_def)

lemma exponentDigits_numeral: "list_all numeralChar (exponentDigits e)"
  using natToString_numeral by (simp add: exponentDigits_def numeralChar_def)

lemma formatDecimal_numeral: "list_all numeralChar (formatDecimal sn)"
proof -
  have p: "numeralChar CHR ''.''" "numeralChar CHR ''e''" "numeralChar CHR ''0''"
    by (simp_all add: numeralChar_def)
  show ?thesis
    unfolding formatDecimal_def Let_def
    by (simp add: p natToString_numeral numeral_take numeral_drop numeral_zeros
        exponentDigits_numeral)
qed

lemma numberToString_numeral: "list_all numeralChar (numberToString shortest n)"
proof (cases n)
  case (Finite x)
  have "numeralChar CHR ''-''" by (simp add: numeralChar_def)
  then show ?thesis
    by (simp add: Finite numberToString_def natToString_numeral formatDecimal_numeral)
qed (simp_all add: numberToString_def numeralChar_def)

lemma toFixed1_numeral: "list_all numeralChar (toFixed1 shortest n)"
proof (cases n)
  case (Finite x)
  have p: "numeralChar CHR ''-''" "numeralChar CHR ''.''"
    by (simp_all add: numeralChar_def)
  have d: "numeralChar (digitChar (k mod 10))" for k
    by (rule isDigit_numeralChar) (simp add: isDigit_digitChar)
  show ?thesis
    by (simp add: Finite toFixed1_def Let_def p d natToString_numeral numberToString_numeral)
qed (simp_all add: toFixed1_def numberToString_numeral)

lemma numeralChar_plain:
  "numeralChar c \<Longrightarrow> c \<noteq> CHR ''<'' \<and> c \<noteq> CHR ''>'' \<and> c \<noteq> CHR ''&''"
  by (auto simp: numeralChar_def)

lemma toFixed1_plain:
  "CHR ''<'' \<notin> set (toFixed1 shortest n)" "CHR ''>'' \<notin> set (toFixed1 shortest n)"
  "CHR ''&'' \<notin> set (toFixed1 shortest n)"
  using toFixed1_numeral [of shortest n] numeralChar_plain by (auto simp: list_all_iff)

lemma natToString_no_minus: "\<not> startsWith (natToString n @ s) ''-''"
proof -
  obtain c cs where e: "natToString n = c # cs"
    using natToString_nonempty by (cases "natToString n") auto
  have "isDigit c" using natToString_digits [of n] by (simp add: e)
  then show ?thesis using isDigit_plain by (auto simp: e startsWith_def)
qed

text \<open>The rendering of a finite priority of magnitude below \<open>10\<^sup>2\<^sup>1\<close>.\<close>

lemma toFixed1_finite:
  assumes "\<bar>x\<bar> < 10 ^ 21"
  shows "toFixed1 shortest (Finite x)
    = (if x < 0 then ''-'' else []) @ natToString (nat \<lfloor>\<bar>x\<bar> * 10 + 1 / 2\<rfloor> div 10)
        @ ''.'' @ [digitChar (nat \<lfloor>\<bar>x\<bar> * 10 + 1 / 2\<rfloor> mod 10)]"
  using assms by (simp add: toFixed1_def Let_def)

lemma nearest_tenth:
  "\<bar>x\<bar> * 10 - 1 / 2 < real (nat \<lfloor>\<bar>x\<bar> * 10 + 1 / 2\<rfloor>)
   \<and> real (nat \<lfloor>\<bar>x\<bar> * 10 + 1 / 2\<rfloor>) \<le> \<bar>x\<bar> * 10 + 1 / 2"
proof -
  define y where "y = \<bar>x\<bar> * 10 + 1 / 2"
  have "0 \<le> y" by (simp add: y_def)
  then have "0 \<le> \<lfloor>y\<rfloor>" by simp
  then have r: "real (nat \<lfloor>y\<rfloor>) = of_int \<lfloor>y\<rfloor>" by simp
  have "of_int \<lfloor>y\<rfloor> \<le> y" "y < of_int \<lfloor>y\<rfloor> + 1" by linarith+
  then have "y - 1 < real (nat \<lfloor>y\<rfloor>) \<and> real (nat \<lfloor>y\<rfloor>) \<le> y"
    unfolding r by linarith
  then show ?thesis by (simp add: y_def)
qed

lemma toFixed1_value:
  assumes "\<bar>x\<bar> < 10 ^ 21"
  shows "\<exists>ds d. toFixed1 shortest (Finite x) = (if x < 0 then ''-'' else []) @ ds @ ''.'' @ [d]
    \<and> canonicalDigits ds \<and> isDigit d
    \<and> \<bar>x\<bar> * 10 - 1 / 2 < real (decimalValue (ds @ [d]))
    \<and> real (decimalValue (ds @ [d])) \<le> \<bar>x\<bar> * 10 + 1 / 2"
proof -
  define k where "k = nat \<lfloor>\<bar>x\<bar> * 10 + 1 / 2\<rfloor>"
  have v: "decimalValue (natToString (k div 10) @ [digitChar (k mod 10)]) = k"
    by (simp add: decimalValue_snoc decimalValue_natToString digitValue_digitChar)
  have n: "\<bar>x\<bar> * 10 - 1 / 2 < real k \<and> real k \<le> \<bar>x\<bar> * 10 + 1 / 2"
    unfolding k_def by (rule nearest_tenth)
  have "toFixed1 shortest (Finite x)
      = (if x < 0 then ''-'' else []) @ natToString (k div 10) @ ''.'' @ [digitChar (k mod 10)]"
    unfolding k_def by (rule toFixed1_finite [OF assms])
  moreover have "canonicalDigits (natToString (k div 10))"
    by (rule canonicalDigits_natToString)
  moreover have "isDigit (digitChar (k mod 10))"
    by (simp add: isDigit_digitChar)
  ultimately show ?thesis using v n by metis
qed

lemma startsWith_Nil [simp]: "startsWith s []"
  by (simp add: startsWith_def)

lemma startsWith_Nil_left [simp]: "startsWith [] (c # p) = False"
  by (simp add: startsWith_def)

lemma startsWith_Cons [simp]: "startsWith (c # s) (d # p) = (c = d \<and> startsWith s p)"
  by (auto simp: startsWith_def)

lemma generateSitemapEntry_parts:
  "generateSitemapEntry shortest e =
     ''  <url>\<newline>'' @ (''    <loc>'' @ escapeXml (url e) @ ''</loc>\<newline>'')
       @ lastmodPart (lastmod e) @ changefreqPart (changefreq e)
       @ priorityPart shortest (priority e) @ ''  </url>\<newline>''"
  by (simp add: generateSitemapEntry_def Let_def lastmodPart_def changefreqPart_def priorityPart_def
      split: option.split)

lemma includesStr_skip:
  "CHR ''<'' \<notin> set a \<Longrightarrow> includesStr (a @ b) (CHR ''<'' # p) = includesStr b (CHR ''<'' # p)"
  by (induction a) auto

lemma includesStr_skip_escapeXml [simp]:
  "includesStr (escapeXml u @ b) (CHR ''<'' # p) = includesStr b (CHR ''<'' # p)"
  by (simp add: includesStr_skip escapeXml_free)

lemma includesStr_skip_toFixed1 [simp]:
  "includesStr (toFixed1 shortest x @ b) (CHR ''<'' # p) = includesStr b (CHR ''<'' # p)"
  by (simp add: includesStr_skip toFixed1_plain)

lemmas entry_parts = generateSitemapEntry_parts lastmodPart_def changefreqPart_def priorityPart_def

lemma entry_has_lastmod:
  "includesStr (generateSitemapEntry shortest e) ''<lastmod>''
     \<longleftrightarrow> (\<exists>l. lastmod e = Some l \<and> l \<noteq> [])"
  by (cases "lastmod e"; cases "changefreq e"; cases "priority e") (simp_all add: entry_parts)

lemma entry_has_changefreq:
  "includesStr (generateSitemapEntry shortest e) ''<changefreq>''
     \<longleftrightarrow> (\<exists>f. changefreq e = Some f \<and> f \<noteq> [])"
  by (cases "lastmod e"; cases "changefreq e"; cases "priority e") (simp_all add: entry_parts)

lemma entry_has_priority:
  "includesStr (generateSitemapEntry shortest e) ''<priority>'' \<longleftrightarrow> (\<exists>p. priority e = Some p)"
  by (cases "lastmod e"; cases "changefreq e"; cases "priority e") (simp_all add: entry_parts)

lemma includesStr_appendI2: "includesStr s p \<Longrightarrow> includesStr (a @ s @ b) p"
  unfolding includesStr_iff by (metis append.assoc)

lemma entry_loc:
  "includesStr (generateSitemapEntry shortest e) (''<loc>'' @ escapeXml (url e) @ ''</loc>'')"
proof -
  have "generateSitemapEntry shortest e
      = ''  <url>\<newline>    '' @ (''<loc>'' @ escapeXml (url e) @ ''</loc>'')
          @ (''\<newline>'' @ lastmodPart (lastmod e) @ changefreqPart (changefreq e)
              @ priorityPart shortest (priority e) @ ''  </url>\<newline>'')"
    by (simp add: generateSitemapEntry_parts)
  then show ?thesis by (simp only: includesStr_appendI)
qed

lemma lastmodPart_includes:
  "l \<noteq> [] \<Longrightarrow> includesStr (lastmodPart (Some l)) (''<lastmod>'' @ escapeXml l @ ''</lastmod>'')"
  using includesStr_appendI [of "''    ''" "''<lastmod>'' @ escapeXml l @ ''</lastmod>''" "''\<newline>''"]
  by (simp add: lastmodPart_def)

lemma changefreqPart_includes:
  "f \<noteq> [] \<Longrightarrow> includesStr (changefreqPart (Some f)) (''<changefreq>'' @ escapeXml f @ ''</changefreq>'')"
  using includesStr_appendI [of "''    ''" "''<changefreq>'' @ escapeXml f @ ''</changefreq>''" "''\<newline>''"]
  by (simp add: changefreqPart_def)

lemma priorityPart_includes:
  "includesStr (priorityPart shortest (Some p)) (''<priority>'' @ toFixed1 shortest p @ ''</priority>'')"
  using includesStr_appendI
    [of "''    ''" "''<priority>'' @ toFixed1 shortest p @ ''</priority>''" "''\<newline>''"]
  by (simp add: priorityPart_def)

lemma entry_lastmod:
  assumes "lastmod e = Some l" and "l \<noteq> []"
  shows "includesStr (generateSitemapEntry shortest e) (''<lastmod>'' @ escapeXml l @ ''</lastmod>'')"
proof -
  have "generateSitemapEntry shortest e
      = (''  <url>\<newline>'' @ (''    <loc>'' @ escapeXml (url e) @ ''</loc>\<newline>''))
          @ lastmodPart (Some l)
          @ (changefreqPart (changefreq e) @ priorityPart shortest (priority e) @ ''  </url>\<newline>'')"
    using assms(1) by (simp add: generateSitemapEntry_parts)
  then show ?thesis
    by (simp only: includesStr_appendI2 [OF lastmodPart_includes [OF assms(2)]])
qed

lemma entry_changefreq:
  assumes "changefreq e = Some f" and "f \<noteq> []"
  shows "includesStr (generateSitemapEntry shortest e)
    (''<changefreq>'' @ escapeXml f @ ''</changefreq>'')"
proof -
  have "generateSitemapEntry shortest e
      = (''  <url>\<newline>'' @ (''    <loc>'' @ escapeXml (url e) @ ''</loc>\<newline>'')
            @ lastmodPart (lastmod e))
          @ changefreqPart (Some f)
          @ (priorityPart shortest (priority e) @ ''  </url>\<newline>'')"
    using assms(1) by (simp add: generateSitemapEntry_parts)
  then show ?thesis
    by (simp only: includesStr_appendI2 [OF changefreqPart_includes [OF assms(2)]])
qed

lemma entry_priority:
  assumes "priority e = Some p"
  shows "includesStr (generateSitemapEntry shortest e)
    (''<priority>'' @ toFixed1 shortest p @ ''</priority>'')"
proof -
  have "generateSitemapEntry shortest e
      = (''  <url>\<newline>'' @ (''    <loc>'' @ escapeXml (url e) @ ''</loc>\<newline>'')
            @ lastmodPart (lastmod e) @ changefreqPart (changefreq e))
          @ priorityPart shortest (Some p)
          @ ''  </url>\<newline>''"
    using assms(1) by (simp add: generateSitemapEntry_parts)
  then show ?thesis
    by (simp only: includesStr_appendI2 [OF priorityPart_includes])
qed

lemma entry_frame:
  "startsWith (generateSitemapEntry shortest e) ''  <url>\<newline>''"
  "endsWith (generateSitemapEntry shortest e) ''  </url>\<newline>''"
  by (simp_all add: generateSitemapEntry_parts endsWith_suffix suffix_def)

lemma entry_priority_value:
  assumes "priority e = Some (Finite x)" and "\<bar>x\<bar> < 10 ^ 21"
  shows "\<exists>ds d. includesStr (generateSitemapEntry shortest e)
        (''<priority>'' @ (if x < 0 then ''-'' else []) @ ds @ ''.'' @ [d] @ ''</priority>'')
    \<and> canonicalDigits ds \<and> isDigit d
    \<and> \<bar>x\<bar> * 10 - 1 / 2 < real (decimalValue (ds @ [d]))
    \<and> real (decimalValue (ds @ [d])) \<le> \<bar>x\<bar> * 10 + 1 / 2"
proof -
  obtain ds d where
    t: "toFixed1 shortest (Finite x) = (if x < 0 then ''-'' else []) @ ds @ ''.'' @ [d]"
    and r: "canonicalDigits ds" "isDigit d"
      "\<bar>x\<bar> * 10 - 1 / 2 < real (decimalValue (ds @ [d]))"
      "real (decimalValue (ds @ [d])) \<le> \<bar>x\<bar> * 10 + 1 / 2"
    using toFixed1_value [OF assms(2), of shortest] by blast
  have "includesStr (generateSitemapEntry shortest e)
      (''<priority>'' @ ((if x < 0 then ''-'' else []) @ ds @ ''.'' @ [d]) @ ''</priority>'')"
    using entry_priority [OF assms(1), of shortest] unfolding t .
  then have "includesStr (generateSitemapEntry shortest e)
      (''<priority>'' @ (if x < 0 then ''-'' else []) @ ds @ ''.'' @ [d] @ ''</priority>'')"
    by simp
  then show ?thesis using r by blast
qed

text \<open>
  C2 fails for a priority that is not a finite number: \<^verbatim>\<open>NaN\<close> is printed as the
  word \<^verbatim>\<open>NaN\<close>, which has no decimal digit.
\<close>

theorem generateSitemapEntry_priority_NaN:
  "generateSitemapEntry sampleShortest nanEntry
     = ''  <url>\<newline>    <loc>https://e.com/p</loc>\<newline>    <priority>NaN</priority>\<newline>  </url>\<newline>''
   \<and> \<not> oneDecimalDigit ''NaN''"
  by (simp add: nanEntry_def generateSitemapEntry_def Let_def escapeXml_concat escapeChar_def
      toFixed1_def numberToString_def oneDecimalDigit_def isDigit_def)

text \<open>
  C2, for the priorities that \<^verbatim>\<open>toFixed\<close> prints in plain notation. The fragment for
  an entry is a \<^verbatim>\<open>url\<close> element: it opens with the \<^verbatim>\<open><url>\<close> line and closes with
  the \<^verbatim>\<open></url>\<close> line. It always contains the \<^verbatim>\<open>loc\<close> element with the escaped
  url. A \<^verbatim>\<open>lastmod\<close> or \<^verbatim>\<open>changefreq\<close> tag occurs in it exactly when the entry has
  that field and the field is not the empty string, and then the element holds the
  escaped field; a \<^verbatim>\<open>priority\<close> tag occurs in it exactly when the entry has a
  priority. A finite priority of magnitude below \<open>10\<^sup>2\<^sup>1\<close> is printed as a minus sign
  if it is negative, a canonical numeral, a point and exactly one digit, and the
  digits denote the whole number nearest to ten times the magnitude, the upper one of
  two that are equally near. Escaping replaces each of the five characters by its
  entity, so the escaped text has no angle bracket and no quote.
\<close>

theorem generateSitemapEntry_elements:
  "startsWith (generateSitemapEntry shortest e) ''  <url>\<newline>''
   \<and> endsWith (generateSitemapEntry shortest e) ''  </url>\<newline>''
   \<and> includesStr (generateSitemapEntry shortest e) (''<loc>'' @ escapeXml (url e) @ ''</loc>'')
   \<and> (includesStr (generateSitemapEntry shortest e) ''<lastmod>''
        \<longleftrightarrow> (\<exists>l. lastmod e = Some l \<and> l \<noteq> []))
   \<and> (\<forall>l. lastmod e = Some l \<and> l \<noteq> [] \<longrightarrow>
        includesStr (generateSitemapEntry shortest e) (''<lastmod>'' @ escapeXml l @ ''</lastmod>''))
   \<and> (includesStr (generateSitemapEntry shortest e) ''<changefreq>''
        \<longleftrightarrow> (\<exists>f. changefreq e = Some f \<and> f \<noteq> []))
   \<and> (\<forall>f. changefreq e = Some f \<and> f \<noteq> [] \<longrightarrow>
        includesStr (generateSitemapEntry shortest e)
          (''<changefreq>'' @ escapeXml f @ ''</changefreq>''))
   \<and> (includesStr (generateSitemapEntry shortest e) ''<priority>'' \<longleftrightarrow> priority e \<noteq> None)
   \<and> (\<forall>x. priority e = Some (Finite x) \<and> \<bar>x\<bar> < 10 ^ 21 \<longrightarrow>
        (\<exists>ds d. includesStr (generateSitemapEntry shortest e)
              (''<priority>'' @ (if x < 0 then ''-'' else []) @ ds @ ''.'' @ [d] @ ''</priority>'')
           \<and> canonicalDigits ds \<and> isDigit d
           \<and> \<bar>x\<bar> * 10 - 1 / 2 < real (decimalValue (ds @ [d]))
           \<and> real (decimalValue (ds @ [d])) \<le> \<bar>x\<bar> * 10 + 1 / 2))
   \<and> escapeXml t = concat (map escapeChar t)
   \<and> set (escapeXml t) \<inter> {CHR ''<'', CHR ''>'', CHR 0x22, CHR 0x27} = {}"
proof -
  have a: "\<forall>l. lastmod e = Some l \<and> l \<noteq> [] \<longrightarrow>
        includesStr (generateSitemapEntry shortest e) (''<lastmod>'' @ escapeXml l @ ''</lastmod>'')"
    using entry_lastmod [of e _ shortest] by blast
  have b: "\<forall>f. changefreq e = Some f \<and> f \<noteq> [] \<longrightarrow>
        includesStr (generateSitemapEntry shortest e)
          (''<changefreq>'' @ escapeXml f @ ''</changefreq>'')"
    using entry_changefreq [of e _ shortest] by blast
  have c: "includesStr (generateSitemapEntry shortest e) ''<priority>'' \<longleftrightarrow> priority e \<noteq> None"
    unfolding entry_has_priority by auto
  have d: "\<forall>x. priority e = Some (Finite x) \<and> \<bar>x\<bar> < 10 ^ 21 \<longrightarrow>
        (\<exists>ds d. includesStr (generateSitemapEntry shortest e)
              (''<priority>'' @ (if x < 0 then ''-'' else []) @ ds @ ''.'' @ [d] @ ''</priority>'')
           \<and> canonicalDigits ds \<and> isDigit d
           \<and> \<bar>x\<bar> * 10 - 1 / 2 < real (decimalValue (ds @ [d]))
           \<and> real (decimalValue (ds @ [d])) \<le> \<bar>x\<bar> * 10 + 1 / 2)"
    using entry_priority_value [of e _ shortest] by blast
  have f: "set (escapeXml t) \<inter> {CHR ''<'', CHR ''>'', CHR 0x22, CHR 0x27} = {}"
    using escapeXml_free [of t] by blast
  note g = entry_frame [of shortest e] entry_loc [of shortest e] entry_has_lastmod [of shortest e]
    entry_has_changefreq [of shortest e] escapeXml_concat [of t]
  show ?thesis
    apply (intro conjI)
    apply (rule g(1))
    apply (rule g(2))
    apply (rule g(3))
    apply (rule g(4))
    apply (rule a)
    apply (rule g(5))
    apply (rule b)
    apply (rule c)
    apply (rule d)
    apply (rule g(6))
    apply (rule f)
    done
qed

theorem generateSitemapEntry_elements_witness:
  "includesStr (generateSitemapEntry sampleShortest pricedEntry) ''<loc>https://e.com/p?a=1&amp;b=2</loc>''
   \<and> includesStr (generateSitemapEntry sampleShortest pricedEntry) ''<priority>''
   \<and> (\<exists>ds d. includesStr (generateSitemapEntry sampleShortest pricedEntry)
          (''<priority>'' @ ds @ ''.'' @ [d] @ ''</priority>'')
        \<and> canonicalDigits ds \<and> isDigit d \<and> decimalValue (ds @ [d]) = 8)
   \<and> generateSitemapEntry sampleShortest pricedEntry
       = ''  <url>\<newline>    <loc>https://e.com/p?a=1&amp;b=2</loc>\<newline>    <priority>0.8</priority>\<newline>  </url>\<newline>''
   \<and> \<not> includesStr (generateSitemapEntry sampleShortest pricedEntry) ''<lastmod>''
   \<and> \<not> includesStr (generateSitemapEntry sampleShortest pricedEntry) ''<changefreq>''
   \<and> includesStr (generateSitemapEntry sampleShortest fullEntry)
        ''<lastmod>2024-01-15T10:00:00.000Z</lastmod>''
   \<and> includesStr (generateSitemapEntry sampleShortest fullEntry) ''<changefreq>weekly</changefreq>''"
proof -
  note t = generateSitemapEntry_elements [of sampleShortest pricedEntry "url pricedEntry"]
  note f = generateSitemapEntry_elements [of sampleShortest fullEntry "url fullEntry"]
  note flm = f [THEN conjunct2, THEN conjunct2, THEN conjunct2, THEN conjunct2, THEN conjunct1, rule_format]
  note fcf = f [THEN conjunct2, THEN conjunct2, THEN conjunct2, THEN conjunct2, THEN conjunct2, THEN conjunct2, THEN conjunct1, rule_format]
  note loc = t [THEN conjunct2, THEN conjunct2, THEN conjunct1]
  note lm = t [THEN conjunct2, THEN conjunct2, THEN conjunct2, THEN conjunct1]
  note cf = t [THEN conjunct2, THEN conjunct2, THEN conjunct2, THEN conjunct2, THEN conjunct2, THEN conjunct1]
  note pr = t [THEN conjunct2, THEN conjunct2, THEN conjunct2, THEN conjunct2, THEN conjunct2, THEN conjunct2, THEN conjunct2, THEN conjunct1]
  note pv = t [THEN conjunct2, THEN conjunct2, THEN conjunct2, THEN conjunct2, THEN conjunct2, THEN conjunct2, THEN conjunct2, THEN conjunct2, THEN conjunct1]
  have u: "escapeXml (url pricedEntry) = ''https://e.com/p?a=1&amp;b=2''"
    by (simp add: pricedEntry_def escapeXml_concat escapeChar_def)
  have p: "priority pricedEntry = Some (Finite eightTenths)"
    and n: "lastmod pricedEntry = None" "changefreq pricedEntry = None"
    by (simp_all add: pricedEntry_def)
  have r: "\<bar>eightTenths\<bar> < 10 ^ 21" "\<not> eightTenths < 0"
    by (simp_all add: eightTenths_def)
  have m: "\<bar>eightTenths\<bar> * 10 + 1 / 2 < 9" "7 < \<bar>eightTenths\<bar> * 10 - 1 / 2"
    by (simp_all add: eightTenths_def)
  have 1: "includesStr (generateSitemapEntry sampleShortest pricedEntry)
      ''<loc>https://e.com/p?a=1&amp;b=2</loc>''"
    using loc unfolding u by simp
  have 2: "includesStr (generateSitemapEntry sampleShortest pricedEntry) ''<priority>''"
    unfolding pr p by simp
  have "priority pricedEntry = Some (Finite eightTenths) \<and> \<bar>eightTenths\<bar> < 10 ^ 21"
    using p r(1) by (rule conjI)
  then have "\<exists>ds d. includesStr (generateSitemapEntry sampleShortest pricedEntry)
          (''<priority>'' @ (if eightTenths < 0 then ''-'' else []) @ ds @ ''.'' @ [d] @ ''</priority>'')
      \<and> canonicalDigits ds \<and> isDigit d
      \<and> \<bar>eightTenths\<bar> * 10 - 1 / 2 < real (decimalValue (ds @ [d]))
      \<and> real (decimalValue (ds @ [d])) \<le> \<bar>eightTenths\<bar> * 10 + 1 / 2"
    by (rule pv [rule_format])
  then obtain ds d where
    i: "includesStr (generateSitemapEntry sampleShortest pricedEntry)
          (''<priority>'' @ (if eightTenths < 0 then ''-'' else []) @ ds @ ''.'' @ [d] @ ''</priority>'')"
    and c: "canonicalDigits ds" "isDigit d"
    and v: "\<bar>eightTenths\<bar> * 10 - 1 / 2 < real (decimalValue (ds @ [d]))"
      "real (decimalValue (ds @ [d])) \<le> \<bar>eightTenths\<bar> * 10 + 1 / 2"
    by blast
  have "7 < real (decimalValue (ds @ [d]))" "real (decimalValue (ds @ [d])) < 9"
    using v m by linarith+
  then have "7 < decimalValue (ds @ [d])" "decimalValue (ds @ [d]) < 9"
    by linarith+
  then have e: "decimalValue (ds @ [d]) = 8" by linarith
  have i': "includesStr (generateSitemapEntry sampleShortest pricedEntry)
          (''<priority>'' @ ds @ ''.'' @ [d] @ ''</priority>'')"
    using i r(2) by simp
  have 3: "\<exists>ds d. includesStr (generateSitemapEntry sampleShortest pricedEntry)
          (''<priority>'' @ ds @ ''.'' @ [d] @ ''</priority>'')
        \<and> canonicalDigits ds \<and> isDigit d \<and> decimalValue (ds @ [d]) = 8"
    using i' c e by blast
  have 4: "generateSitemapEntry sampleShortest pricedEntry
       = ''  <url>\<newline>    <loc>https://e.com/p?a=1&amp;b=2</loc>\<newline>    <priority>0.8</priority>\<newline>  </url>\<newline>''"
    by (simp add: pricedEntry_def generateSitemapEntry_def Let_def escapeXml_concat escapeChar_def
        toFixed1_def eightTenths_def natToString.simps digitChar_def)
  have 5: "\<not> includesStr (generateSitemapEntry sampleShortest pricedEntry) ''<lastmod>''"
    "\<not> includesStr (generateSitemapEntry sampleShortest pricedEntry) ''<changefreq>''"
    unfolding lm cf n by simp_all
  have "lastmod fullEntry = Some ''2024-01-15T10:00:00.000Z'' \<and> ''2024-01-15T10:00:00.000Z'' \<noteq> []"
    by (simp add: fullEntry_def)
  then have "includesStr (generateSitemapEntry sampleShortest fullEntry)
      (''<lastmod>'' @ escapeXml ''2024-01-15T10:00:00.000Z'' @ ''</lastmod>'')"
    by (rule flm)
  then have 6: "includesStr (generateSitemapEntry sampleShortest fullEntry)
      ''<lastmod>2024-01-15T10:00:00.000Z</lastmod>''"
    by (simp add: escapeXml_concat escapeChar_def)
  have "changefreq fullEntry = Some ''weekly'' \<and> ''weekly'' \<noteq> []"
    by (simp add: fullEntry_def)
  then have "includesStr (generateSitemapEntry sampleShortest fullEntry)
      (''<changefreq>'' @ escapeXml ''weekly'' @ ''</changefreq>'')"
    by (rule fcf)
  then have 7: "includesStr (generateSitemapEntry sampleShortest fullEntry)
      ''<changefreq>weekly</changefreq>''"
    by (simp add: escapeXml_concat escapeChar_def)
  show ?thesis using 1 2 3 4 5 6 7 by blast
qed

text \<open>
  C10. The presence tests differ by field. The priority is compared with
  \<^verbatim>\<open>undefined\<close>: a priority of zero is present and printed as \<^verbatim>\<open>0.0\<close>. The
  \<^verbatim>\<open>lastmod\<close> and \<^verbatim>\<open>changefreq\<close> fields are tested for truthiness: the empty string
  counts as absent, the fragment has no such tag and equals the one of the entry
  without the field.
\<close>

theorem generateSitemapEntry_presence_tests:
  "(priority e = Some (Finite 0) \<longrightarrow>
      includesStr (generateSitemapEntry shortest e) ''<priority>0.0</priority>'')
   \<and> (lastmod e = Some [] \<longrightarrow>
        \<not> includesStr (generateSitemapEntry shortest e) ''<lastmod>''
        \<and> generateSitemapEntry shortest e = generateSitemapEntry shortest (e\<lparr> lastmod := None \<rparr>))
   \<and> (changefreq e = Some [] \<longrightarrow>
        \<not> includesStr (generateSitemapEntry shortest e) ''<changefreq>''
        \<and> generateSitemapEntry shortest e = generateSitemapEntry shortest (e\<lparr> changefreq := None \<rparr>))"
proof -
  have z: "toFixed1 shortest (Finite 0) = ''0.0''"
    by (simp add: toFixed1_def Let_def natToString.simps digitChar_def)
  have a: "includesStr (generateSitemapEntry shortest e) ''<priority>0.0</priority>''"
    if "priority e = Some (Finite 0)"
    using entry_priority [OF that, of shortest] by (simp add: z)
  have b: "generateSitemapEntry shortest e = generateSitemapEntry shortest (e\<lparr> lastmod := None \<rparr>)"
    if "lastmod e = Some []"
    using that by (simp add: generateSitemapEntry_parts lastmodPart_def)
  have c: "generateSitemapEntry shortest e = generateSitemapEntry shortest (e\<lparr> changefreq := None \<rparr>)"
    if "changefreq e = Some []"
    using that by (simp add: generateSitemapEntry_parts changefreqPart_def)
  show ?thesis
    using a b c unfolding entry_has_lastmod entry_has_changefreq by simp
qed

theorem generateSitemapEntry_presence_tests_witness:
  "generateSitemapEntry sampleShortest emptyFieldsEntry
     = ''  <url>\<newline>    <loc>https://e.com/p</loc>\<newline>    <priority>0.0</priority>\<newline>  </url>\<newline>''
   \<and> includesStr (generateSitemapEntry sampleShortest emptyFieldsEntry) ''<priority>0.0</priority>''
   \<and> \<not> includesStr (generateSitemapEntry sampleShortest emptyFieldsEntry) ''<lastmod>''
   \<and> \<not> includesStr (generateSitemapEntry sampleShortest emptyFieldsEntry) ''<changefreq>''"
proof -
  note t = generateSitemapEntry_presence_tests [of emptyFieldsEntry sampleShortest]
  have f: "priority emptyFieldsEntry = Some (Finite 0)" "lastmod emptyFieldsEntry = Some []"
    "changefreq emptyFieldsEntry = Some []"
    by (simp_all add: emptyFieldsEntry_def)
  have 1: "generateSitemapEntry sampleShortest emptyFieldsEntry
     = ''  <url>\<newline>    <loc>https://e.com/p</loc>\<newline>    <priority>0.0</priority>\<newline>  </url>\<newline>''"
    by (simp add: emptyFieldsEntry_def generateSitemapEntry_def Let_def escapeXml_concat escapeChar_def
        toFixed1_def natToString.simps digitChar_def)
  show ?thesis using t f 1 by blast
qed

section \<open>Sitemap documents\<close>

lemma foldl_append_concat: "foldl (\<lambda>xml e. xml @ f e) a es = a @ concat (map f es)"
  by (induction es arbitrary: a) simp_all

lemma generateSitemapXml_concat:
  \<open>generateSitemapXml shortest es =
     ''<?xml version="1.0" encoding="UTF-8"?>\<newline><urlset xmlns="http://www.sitemaps.org/schemas/sitemap/0.9">\<newline>''
       @ concat (map (generateSitemapEntry shortest) es) @ ''</urlset>\<newline>''\<close>
  by (simp add: generateSitemapXml_def Let_def foldl_append_concat)

lemma generateSitemapXml_empty:
  \<open>generateSitemapXml shortest [] =
     ''<?xml version="1.0" encoding="UTF-8"?>\<newline><urlset xmlns="http://www.sitemaps.org/schemas/sitemap/0.9">\<newline></urlset>\<newline>''\<close>
  by (simp add: generateSitemapXml_concat)

lemma escapeXml_other: "c \<notin> set ''&<>'' \<Longrightarrow> c \<noteq> CHR 0x22 \<Longrightarrow> c \<noteq> CHR 0x27 \<Longrightarrow> escapeChar c = [c]"
  by (simp add: escapeChar_def)

text \<open>
  C1. The round trip breaks on a url with a control character. \<^const>\<open>escapeXml\<close>
  replaces the five markup characters and copies every other character. The
  character \<^verbatim>\<open>U+0001\<close> of a url therefore stands in the \<^verbatim>\<open>loc\<close> element of the
  document as it is, and it is not a character of XML 1.0: the document is not
  well-formed and an XML processor rejects it instead of reading one \<^verbatim>\<open>url\<close>
  element back. A carriage return is copied as it is too; an XML processor reads it
  back as a line feed, so the text of the \<^verbatim>\<open>loc\<close> element differs from the url.
\<close>

theorem generateSitemapXml_control_character:
  \<open>generateSitemapXml sampleShortest [controlEntry] =
     ''<?xml version="1.0" encoding="UTF-8"?>\<newline><urlset xmlns="http://www.sitemaps.org/schemas/sitemap/0.9">\<newline>''
       @ ''  <url>\<newline>    <loc>https://e.com/a'' @ [CHR 0x01] @ ''b</loc>\<newline>  </url>\<newline></urlset>\<newline>''
   \<and> \<not> xmlChar (CHR 0x01)
   \<and> \<not> list_all xmlChar (generateSitemapXml sampleShortest [controlEntry])
   \<and> generateSitemapXml sampleShortest [carriageReturnEntry] =
     ''<?xml version="1.0" encoding="UTF-8"?>\<newline><urlset xmlns="http://www.sitemaps.org/schemas/sitemap/0.9">\<newline>''
       @ ''  <url>\<newline>    <loc>https://e.com/a'' @ [CHR 0x0D] @ ''b</loc>\<newline>  </url>\<newline></urlset>\<newline>''\<close>
  by (simp add: generateSitemapXml_concat generateSitemapEntry_def Let_def controlEntry_def
      carriageReturnEntry_def escapeXml_concat escapeChar_def xmlChar_def)

section \<open>Structured data\<close>

text \<open>
  C7. The BlogPosting object carries the post's \<^verbatim>\<open>publishedAt\<close> as
  \<^verbatim>\<open>datePublished\<close> and the system \<^verbatim>\<open>updatedAt\<close> as \<^verbatim>\<open>dateModified\<close>; the
  \<^verbatim>\<open>keywords\<close> key is absent for an empty tag list and holds the tag list otherwise.
\<close>

theorem blogPosting_dates_keywords:
  "datePublished (generateBlogPostingSchema config post canonicalUrl) = publishedAt post
   \<and> dateModified (generateBlogPostingSchema config post canonicalUrl) = updatedAt (post_sys post)
   \<and> (tags post = Some [] \<longrightarrow> bp_keywords (generateBlogPostingSchema config post canonicalUrl) = None)
   \<and> (\<forall>ts. tags post = Some ts \<and> ts \<noteq> []
         \<longrightarrow> bp_keywords (generateBlogPostingSchema config post canonicalUrl) = Some ts)"
  by (simp add: generateBlogPostingSchema_def Let_def split: option.split)

theorem blogPosting_dates_keywords_witness:
  "datePublished (generateBlogPostingSchema sampleConfig samplePost ''https://example.com/blog/optimizing-lcp'')
     = ''2024-01-15T10:00:00.000Z''
   \<and> dateModified (generateBlogPostingSchema sampleConfig samplePost ''https://example.com/blog/optimizing-lcp'')
     = ''2024-01-20T14:30:00.000Z''
   \<and> bp_keywords (generateBlogPostingSchema sampleConfig samplePost ''https://example.com/blog/optimizing-lcp'')
     = Some [''lcp'', ''performance'']
   \<and> bp_keywords (generateBlogPostingSchema sampleConfig (samplePost\<lparr> tags := Some [] \<rparr>) ''https://example.com/blog/optimizing-lcp'')
     = None"
proof -
  note t = blogPosting_dates_keywords [of sampleConfig samplePost "''https://example.com/blog/optimizing-lcp''"]
  note e = blogPosting_dates_keywords
    [of sampleConfig "samplePost\<lparr> tags := Some [] \<rparr>" "''https://example.com/blog/optimizing-lcp''"]
  have p: "publishedAt samplePost = ''2024-01-15T10:00:00.000Z''"
    and u: "updatedAt (post_sys samplePost) = ''2024-01-20T14:30:00.000Z''"
    and g: "tags samplePost = Some [''lcp'', ''performance'']"
    by (simp_all add: samplePost_def sampleSys_def)
  have 1: "datePublished (generateBlogPostingSchema sampleConfig samplePost ''https://example.com/blog/optimizing-lcp'')
     = ''2024-01-15T10:00:00.000Z''"
    using t p by simp
  have 2: "dateModified (generateBlogPostingSchema sampleConfig samplePost ''https://example.com/blog/optimizing-lcp'')
     = ''2024-01-20T14:30:00.000Z''"
    using t u by simp
  have 3: "bp_keywords (generateBlogPostingSchema sampleConfig samplePost ''https://example.com/blog/optimizing-lcp'')
     = Some [''lcp'', ''performance'']"
    using t g by blast
  have 4: "bp_keywords (generateBlogPostingSchema sampleConfig (samplePost\<lparr> tags := Some [] \<rparr>) ''https://example.com/blog/optimizing-lcp'')
     = None"
    using e by simp
  show ?thesis using 1 2 3 4 by blast
qed

lemma step_generateHowToSchema:
  "step (generateHowToSchema shortest config guide) = map (generateHowToStep config) (steps guide)"
  by (simp add: generateHowToSchema_def Let_def split: option.split)

lemma totalTime_generateHowToSchema:
  "totalTime (generateHowToSchema shortest config guide) =
     (if truthyNumber (estimatedTime guide)
      then Some (''PT'' @ numberToString shortest (estimatedTime guide) @ ''M'') else None)"
  by (simp add: generateHowToSchema_def Let_def split: option.split)

lemma hs_name_generateHowToStep [simp]: "hs_name (generateHowToStep config s) = step_title s"
  by (simp add: generateHowToStep_def Let_def split: option.split)

lemma hs_text_generateHowToStep [simp]: "hs_text (generateHowToStep config s) = step_content s"
  by (simp add: generateHowToStep_def Let_def split: option.split)

lemma hs_image_generateHowToStep:
  "(hs_image (generateHowToStep config s) = None) = (step_image s = None)"
  by (simp add: generateHowToStep_def Let_def split: option.split)

lemma isSafeInteger_of_int: "\<bar>k\<bar> < 2 ^ 53 \<Longrightarrow> isSafeInteger (of_int k)"
proof -
  assume "\<bar>k\<bar> < 2 ^ 53"
  then have "(of_int \<bar>k\<bar> :: real) < of_int (2 ^ 53)"
    by (simp only: of_int_less_iff)
  then show ?thesis by (simp add: isSafeInteger_def)
qed

lemma numberToString_of_int:
  assumes "\<bar>k\<bar> < 2 ^ 53"
  shows "numberToString shortest (Finite (of_int k))
    = (if k < 0 then ''-'' else []) @ natToString (nat \<bar>k\<bar>)"
proof -
  have "\<lfloor>\<bar>of_int k :: real\<bar>\<rfloor> = \<bar>k\<bar>"
    by (simp only: of_int_abs [symmetric] floor_of_int)
  then show ?thesis
    using isSafeInteger_of_int [OF assms] by (simp add: numberToString_def)
qed

lemma totalTime_whole_minutes:
  assumes "estimatedTime guide = Finite (of_int k)" and "k \<noteq> 0" and "\<bar>k\<bar> < 2 ^ 53"
  shows "\<exists>ds. totalTime (generateHowToSchema shortest config guide)
        = Some (''PT'' @ (if k < 0 then ''-'' else []) @ ds @ ''M'')
    \<and> canonicalDigits ds \<and> decimalValue ds = nat \<bar>k\<bar>"
proof -
  have "totalTime (generateHowToSchema shortest config guide)
      = Some (''PT'' @ (if k < 0 then ''-'' else []) @ natToString (nat \<bar>k\<bar>) @ ''M'')"
    using assms(2)
    by (simp add: totalTime_generateHowToSchema assms(1) truthyNumber_def
        numberToString_of_int [OF assms(3)])
  then show ?thesis
    using canonicalDigits_natToString decimalValue_natToString by blast
qed

text \<open>
  C8. The HowTo object has one step per guide step, in the same order, step \<open>i\<close>
  named by the title of guide step \<open>i\<close> and with its content as text. The key
  \<^verbatim>\<open>totalTime\<close> is \<^verbatim>\<open>PT\<close>, the estimated time as the language prints a number, and
  \<^verbatim>\<open>M\<close>, exactly when the estimated time is truthy; the key is absent when the
  estimated time is zero or \<^verbatim>\<open>NaN\<close>. For a whole number of minutes that is a safe
  integer the printed number is a minus sign if it is negative and the canonical
  decimal numeral of its magnitude; an infinite time gives \<^verbatim>\<open>PTInfinityM\<close> or
  \<^verbatim>\<open>PT-InfinityM\<close>; for any other finite number the digits and the place of the point
  are those of the parameter, laid out by \<^const>\<open>formatDecimal\<close>.
\<close>

theorem howTo_steps_totalTime:
  "length (step (generateHowToSchema shortest config guide)) = length (steps guide)
   \<and> (\<forall>i < length (steps guide).
         hs_name (step (generateHowToSchema shortest config guide) ! i) = step_title (steps guide ! i)
         \<and> hs_text (step (generateHowToSchema shortest config guide) ! i) = step_content (steps guide ! i))
   \<and> ((totalTime (generateHowToSchema shortest config guide)
          = Some (''PT'' @ numberToString shortest (estimatedTime guide) @ ''M''))
        = truthyNumber (estimatedTime guide))
   \<and> (\<not> truthyNumber (estimatedTime guide) \<longrightarrow>
        totalTime (generateHowToSchema shortest config guide) = None)
   \<and> truthyNumber (estimatedTime guide)
        = (estimatedTime guide \<noteq> Finite 0 \<and> estimatedTime guide \<noteq> NaN)
   \<and> (\<forall>k. estimatedTime guide = Finite (of_int k) \<and> k \<noteq> 0 \<and> \<bar>k\<bar> < 2 ^ 53 \<longrightarrow>
        (\<exists>ds. totalTime (generateHowToSchema shortest config guide)
              = Some (''PT'' @ (if k < 0 then ''-'' else []) @ ds @ ''M'')
           \<and> canonicalDigits ds \<and> decimalValue ds = nat \<bar>k\<bar>))
   \<and> (estimatedTime guide = PosInfinity \<longrightarrow>
        totalTime (generateHowToSchema shortest config guide) = Some ''PTInfinityM'')
   \<and> (estimatedTime guide = NegInfinity \<longrightarrow>
        totalTime (generateHowToSchema shortest config guide) = Some ''PT-InfinityM'')
   \<and> (\<forall>x. estimatedTime guide = Finite x \<and> x \<noteq> 0 \<and> \<not> isSafeInteger x \<longrightarrow>
        totalTime (generateHowToSchema shortest config guide)
          = Some (''PT'' @ (if x < 0 then ''-'' else []) @ formatDecimal (shortest \<bar>x\<bar>) @ ''M''))"
proof -
  have a: "length (step (generateHowToSchema shortest config guide)) = length (steps guide)"
    by (simp add: step_generateHowToSchema)
  have b: "\<forall>i < length (steps guide).
         hs_name (step (generateHowToSchema shortest config guide) ! i) = step_title (steps guide ! i)
         \<and> hs_text (step (generateHowToSchema shortest config guide) ! i) = step_content (steps guide ! i)"
    by (simp add: step_generateHowToSchema)
  have c: "(totalTime (generateHowToSchema shortest config guide)
          = Some (''PT'' @ numberToString shortest (estimatedTime guide) @ ''M''))
        = truthyNumber (estimatedTime guide)"
    by (simp add: totalTime_generateHowToSchema)
  have d: "\<not> truthyNumber (estimatedTime guide) \<longrightarrow>
        totalTime (generateHowToSchema shortest config guide) = None"
    by (simp add: totalTime_generateHowToSchema)
  have e: "truthyNumber (estimatedTime guide)
        = (estimatedTime guide \<noteq> Finite 0 \<and> estimatedTime guide \<noteq> NaN)"
    by (cases "estimatedTime guide") (simp_all add: truthyNumber_def)
  have f: "\<forall>k. estimatedTime guide = Finite (of_int k) \<and> k \<noteq> 0 \<and> \<bar>k\<bar> < 2 ^ 53 \<longrightarrow>
        (\<exists>ds. totalTime (generateHowToSchema shortest config guide)
              = Some (''PT'' @ (if k < 0 then ''-'' else []) @ ds @ ''M'')
           \<and> canonicalDigits ds \<and> decimalValue ds = nat \<bar>k\<bar>)"
    using totalTime_whole_minutes [of guide _ shortest config] by blast
  have g: "estimatedTime guide = PosInfinity \<longrightarrow>
        totalTime (generateHowToSchema shortest config guide) = Some ''PTInfinityM''"
    by (simp add: totalTime_generateHowToSchema truthyNumber_def numberToString_def)
  have g': "estimatedTime guide = NegInfinity \<longrightarrow>
        totalTime (generateHowToSchema shortest config guide) = Some ''PT-InfinityM''"
    by (simp add: totalTime_generateHowToSchema truthyNumber_def numberToString_def)
  have h: "\<forall>x. estimatedTime guide = Finite x \<and> x \<noteq> 0 \<and> \<not> isSafeInteger x \<longrightarrow>
        totalTime (generateHowToSchema shortest config guide)
          = Some (''PT'' @ (if x < 0 then ''-'' else []) @ formatDecimal (shortest \<bar>x\<bar>) @ ''M'')"
    by (simp add: totalTime_generateHowToSchema truthyNumber_def numberToString_def)
  show ?thesis
    apply (intro conjI)
    apply (rule a)
    apply (rule b)
    apply (rule c)
    apply (rule d)
    apply (rule e)
    apply (rule f)
    apply (rule g)
    apply (rule g')
    apply (rule h)
    done
qed

theorem howTo_steps_totalTime_witness:
  "length (step (generateHowToSchema sampleShortest sampleConfig sampleGuide)) = 2
   \<and> hs_name (step (generateHowToSchema sampleShortest sampleConfig sampleGuide) ! 1) = ''Configure''
   \<and> hs_text (step (generateHowToSchema sampleShortest sampleConfig sampleGuide) ! 1) = ''Edit the config''
   \<and> totalTime (generateHowToSchema sampleShortest sampleConfig sampleGuide) = Some ''PT45M''
   \<and> (\<exists>ds. totalTime (generateHowToSchema sampleShortest sampleConfig sampleGuide)
          = Some (''PT'' @ ds @ ''M'') \<and> canonicalDigits ds \<and> decimalValue ds = 45)
   \<and> totalTime (generateHowToSchema sampleShortest sampleConfig
        (sampleGuide\<lparr> estimatedTime := Finite 0 \<rparr>)) = None
   \<and> totalTime (generateHowToSchema sampleShortest sampleConfig
        (sampleGuide\<lparr> estimatedTime := NaN \<rparr>)) = None
   \<and> totalTime (generateHowToSchema sampleShortest sampleConfig
        (sampleGuide\<lparr> estimatedTime := Finite (5 / 2) \<rparr>)) = Some ''PT2.5M''
   \<and> totalTime (generateHowToSchema sampleShortest sampleConfig
        (sampleGuide\<lparr> estimatedTime := Finite (10 ^ 21) \<rparr>)) = Some ''PT1e+21M''"
proof -
  note t = howTo_steps_totalTime [of sampleShortest sampleConfig sampleGuide]
  note z = howTo_steps_totalTime
    [of sampleShortest sampleConfig "sampleGuide\<lparr> estimatedTime := Finite 0 \<rparr>", THEN conjunct2, THEN conjunct2, THEN conjunct2, THEN conjunct1]
  note n = howTo_steps_totalTime
    [of sampleShortest sampleConfig "sampleGuide\<lparr> estimatedTime := NaN \<rparr>", THEN conjunct2, THEN conjunct2, THEN conjunct2, THEN conjunct1]
  note q = howTo_steps_totalTime
    [of sampleShortest sampleConfig "sampleGuide\<lparr> estimatedTime := Finite (5 / 2) \<rparr>", THEN conjunct2, THEN conjunct2, THEN conjunct2, THEN conjunct2, THEN conjunct2, THEN conjunct2, THEN conjunct2, THEN conjunct2,
      rule_format, of "5 / 2"]
  note w = howTo_steps_totalTime
    [of sampleShortest sampleConfig "sampleGuide\<lparr> estimatedTime := Finite (10 ^ 21) \<rparr>", THEN conjunct2, THEN conjunct2, THEN conjunct2, THEN conjunct2, THEN conjunct2, THEN conjunct2, THEN conjunct2, THEN conjunct2,
      rule_format, of "10 ^ 21"]
  have l: "length (steps sampleGuide) = 2" and i: "(1::nat) < length (steps sampleGuide)"
    and nm: "step_title (steps sampleGuide ! 1) = ''Configure''"
    and c: "step_content (steps sampleGuide ! 1) = ''Edit the config''"
    and e: "estimatedTime sampleGuide = Finite (of_int 45)"
    by (simp_all add: sampleGuide_def)
  have s: "numberToString sampleShortest (Finite (of_int 45)) = ''45''"
    by (simp add: numberToString_def isSafeInteger_def natToString.simps digitChar_def)
  have tr: "truthyNumber (Finite (of_int 45))"
    by (simp add: truthyNumber_def)
  have 1: "length (step (generateHowToSchema sampleShortest sampleConfig sampleGuide)) = 2"
    using t [THEN conjunct1] l by simp
  have 2: "hs_name (step (generateHowToSchema sampleShortest sampleConfig sampleGuide) ! 1) = ''Configure''"
    "hs_text (step (generateHowToSchema sampleShortest sampleConfig sampleGuide) ! 1) = ''Edit the config''"
    using t [THEN conjunct2, THEN conjunct1] i nm c by auto
  have 3: "totalTime (generateHowToSchema sampleShortest sampleConfig sampleGuide) = Some ''PT45M''"
    using t [THEN conjunct2, THEN conjunct2, THEN conjunct1] tr unfolding e s by simp
  have k: "estimatedTime sampleGuide = Finite (of_int 45) \<and> (45::int) \<noteq> 0 \<and> \<bar>45::int\<bar> < 2 ^ 53"
    using e by simp
  have "\<exists>ds. totalTime (generateHowToSchema sampleShortest sampleConfig sampleGuide)
          = Some (''PT'' @ (if (45::int) < 0 then ''-'' else []) @ ds @ ''M'')
        \<and> canonicalDigits ds \<and> decimalValue ds = nat \<bar>45::int\<bar>"
    using k by (rule t [THEN conjunct2, THEN conjunct2, THEN conjunct2, THEN conjunct2, THEN conjunct2, THEN conjunct1, rule_format])
  then have 4: "\<exists>ds. totalTime (generateHowToSchema sampleShortest sampleConfig sampleGuide)
          = Some (''PT'' @ ds @ ''M'') \<and> canonicalDigits ds \<and> decimalValue ds = 45"
    by simp
  have 5: "totalTime (generateHowToSchema sampleShortest sampleConfig
        (sampleGuide\<lparr> estimatedTime := Finite 0 \<rparr>)) = None"
    using z by (simp add: truthyNumber_def)
  have 6: "totalTime (generateHowToSchema sampleShortest sampleConfig
        (sampleGuide\<lparr> estimatedTime := NaN \<rparr>)) = None"
    using n by (simp add: truthyNumber_def)
  have u: "\<not> isSafeInteger (5 / 2)" "\<not> isSafeInteger (10 ^ 21)"
    by (simp_all add: isSafeInteger_def)
  have f1: "formatDecimal (sampleShortest \<bar>5 / 2\<bar>) = ''2.5''"
    by (simp add: sampleShortest_def formatDecimal_def Let_def natToString.simps digitChar_def)
  have f2: "formatDecimal (sampleShortest \<bar>10 ^ 21\<bar>) = ''1e+21''"
    by (simp add: sampleShortest_def formatDecimal_def Let_def exponentDigits_def
        natToString.simps digitChar_def)
  have "totalTime (generateHowToSchema sampleShortest sampleConfig
        (sampleGuide\<lparr> estimatedTime := Finite (5 / 2) \<rparr>))
      = Some (''PT'' @ (if (5 / 2 :: real) < 0 then ''-'' else [])
          @ formatDecimal (sampleShortest \<bar>5 / 2\<bar>) @ ''M'')"
    using u(1) by (intro q) simp
  then have 7: "totalTime (generateHowToSchema sampleShortest sampleConfig
        (sampleGuide\<lparr> estimatedTime := Finite (5 / 2) \<rparr>)) = Some ''PT2.5M''"
    unfolding f1 by simp
  have "totalTime (generateHowToSchema sampleShortest sampleConfig
        (sampleGuide\<lparr> estimatedTime := Finite (10 ^ 21) \<rparr>))
      = Some (''PT'' @ (if (10 ^ 21 :: real) < 0 then ''-'' else [])
          @ formatDecimal (sampleShortest \<bar>10 ^ 21\<bar>) @ ''M'')"
    using u(2) by (intro w) simp
  then have 8: "totalTime (generateHowToSchema sampleShortest sampleConfig
        (sampleGuide\<lparr> estimatedTime := Finite (10 ^ 21) \<rparr>)) = Some ''PT1e+21M''"
    unfolding f2 by simp
  show ?thesis using 1 2 3 4 5 6 7 8 by blast
qed

lemma org_optional:
  "(logo (generateOrganizationSchema config) = None)
      = (logoUrl config = None \<or> logoUrl config = Some [])"
  "(sameAs (generateOrganizationSchema config) = None)
      = (socialLinks config = None \<or> socialLinks config = Some [])"
  by (auto simp: generateOrganizationSchema_def Let_def split: option.split)

lemma org_values:
  "l \<noteq> [] \<Longrightarrow> logoUrl config = Some l \<Longrightarrow>
     logo (generateOrganizationSchema config) = Some \<lparr> ref_type = ''ImageObject'', ref_url = l \<rparr>"
  "ls \<noteq> [] \<Longrightarrow> socialLinks config = Some ls \<Longrightarrow> sameAs (generateOrganizationSchema config) = Some ls"
  by (auto simp: generateOrganizationSchema_def Let_def split: option.split)

lemma blog_author_url:
  "(person_url (bp_author (generateBlogPostingSchema config post canonicalUrl)) = None)
      = (author_slug (author post) = [])"
  "person_url (bp_author (generateBlogPostingSchema config post canonicalUrl)) \<noteq> Some []"
  by (auto simp: generateBlogPostingSchema_def Let_def split: option.split)

lemma blog_image:
  "(bp_image (generateBlogPostingSchema config post canonicalUrl) = None) = (post_featuredImage post = None)"
  by (auto simp: generateBlogPostingSchema_def Let_def split: option.split)

lemma blog_image_size:
  "post_featuredImage post = Some img \<Longrightarrow>
   \<exists>im. bp_image (generateBlogPostingSchema config post canonicalUrl) = Some im
     \<and> (si_width im = None) = (details_image (details (asset_file (asset_fields img))) = None)
     \<and> (si_height im = None) = (details_image (details (asset_file (asset_fields img))) = None)"
  by (auto simp: generateBlogPostingSchema_def Let_def split: option.split)

lemma blog_section_keywords:
  "(articleSection (generateBlogPostingSchema config post canonicalUrl) = None) = (category post = None)"
  "(bp_keywords (generateBlogPostingSchema config post canonicalUrl) = None)
      = (tags post = None \<or> tags post = Some [])"
  "publisher (generateBlogPostingSchema config post canonicalUrl) = generateOrganizationSchema config"
  by (auto simp: generateBlogPostingSchema_def Let_def split: option.split)

lemma blog_section_value:
  "category post = Some c \<Longrightarrow>
     articleSection (generateBlogPostingSchema config post canonicalUrl) = Some (category_name c)"
  by (simp add: generateBlogPostingSchema_def Let_def split: option.split)

lemma howTo_optional:
  "(ht_image (generateHowToSchema shortest config guide) = None) = (guide_featuredImage guide = None)"
  "(totalTime (generateHowToSchema shortest config guide) = None)
      = (\<not> truthyNumber (estimatedTime guide))"
  "totalTime (generateHowToSchema shortest config guide) \<noteq> Some []"
  "(tool (generateHowToSchema shortest config guide) = None) = (tools guide = None \<or> tools guide = Some [])"
  by (auto simp: generateHowToSchema_def Let_def split: option.split)

text \<open>
  C6, as the code has it. In the objects of the generator every optional key is absent
  exactly when its source is missing or empty: \<^verbatim>\<open>logo\<close>, \<^verbatim>\<open>sameAs\<close> (also inside the
  publisher of a BlogPosting), \<^verbatim>\<open>author.url\<close>, \<^verbatim>\<open>image\<close> with its \<^verbatim>\<open>width\<close> and
  \<^verbatim>\<open>height\<close>, \<^verbatim>\<open>keywords\<close>, \<^verbatim>\<open>totalTime\<close>, \<^verbatim>\<open>tool\<close> and the image of each step. A
  missing or empty estimated time is \<^verbatim>\<open>NaN\<close>, what \<^verbatim>\<open>Number(undefined)\<close> yields, or
  zero. The keys \<^verbatim>\<open>author.url\<close> and \<^verbatim>\<open>totalTime\<close> are never the empty string. The
  key \<^verbatim>\<open>articleSection\<close> is absent exactly when the post has no category, and
  otherwise carries the name of the category as it is. The WebSite, BreadcrumbList and
  FAQPage objects have no conditional key. No key can be bound to null: the record
  types have no such value, as the source assigns none.
\<close>

theorem optional_fields_omitted:
  "(logo (generateOrganizationSchema config) = None)
      = (logoUrl config = None \<or> logoUrl config = Some [])
   \<and> (sameAs (generateOrganizationSchema config) = None)
      = (socialLinks config = None \<or> socialLinks config = Some [])
   \<and> publisher (generateBlogPostingSchema config post canonicalUrl) = generateOrganizationSchema config
   \<and> (person_url (bp_author (generateBlogPostingSchema config post canonicalUrl)) = None)
      = (author_slug (author post) = [])
   \<and> person_url (bp_author (generateBlogPostingSchema config post canonicalUrl)) \<noteq> Some []
   \<and> (bp_image (generateBlogPostingSchema config post canonicalUrl) = None) = (post_featuredImage post = None)
   \<and> (\<forall>img. post_featuredImage post = Some img \<longrightarrow>
         (\<exists>im. bp_image (generateBlogPostingSchema config post canonicalUrl) = Some im
           \<and> (si_width im = None) = (details_image (details (asset_file (asset_fields img))) = None)
           \<and> (si_height im = None) = (details_image (details (asset_file (asset_fields img))) = None)))
   \<and> (articleSection (generateBlogPostingSchema config post canonicalUrl) = None) = (category post = None)
   \<and> (\<forall>c. category post = Some c \<longrightarrow>
         articleSection (generateBlogPostingSchema config post canonicalUrl) = Some (category_name c))
   \<and> (bp_keywords (generateBlogPostingSchema config post canonicalUrl) = None)
      = (tags post = None \<or> tags post = Some [])
   \<and> (ht_image (generateHowToSchema shortest config guide) = None) = (guide_featuredImage guide = None)
   \<and> (totalTime (generateHowToSchema shortest config guide) = None)
      = (estimatedTime guide = NaN \<or> estimatedTime guide = Finite 0)
   \<and> totalTime (generateHowToSchema shortest config guide) \<noteq> Some []
   \<and> (tool (generateHowToSchema shortest config guide) = None) = (tools guide = None \<or> tools guide = Some [])
   \<and> (\<forall>i < length (steps guide).
         (hs_image (step (generateHowToSchema shortest config guide) ! i) = None)
           = (step_image (steps guide ! i) = None))"
proof -
  have t: "(\<not> truthyNumber (estimatedTime guide))
      = (estimatedTime guide = NaN \<or> estimatedTime guide = Finite 0)"
    by (cases "estimatedTime guide") (simp_all add: truthyNumber_def)
  show ?thesis
    using blog_image_size [of post _ config canonicalUrl]
      blog_section_value [of post _ config canonicalUrl]
    by (simp add: org_optional blog_author_url blog_image blog_section_keywords howTo_optional t
        step_generateHowToSchema hs_image_generateHowToStep)
qed

theorem optional_fields_omitted_witness:
  "logo (generateOrganizationSchema bareConfig) = None
   \<and> sameAs (generateOrganizationSchema bareConfig) = None
   \<and> person_url (bp_author (generateBlogPostingSchema bareConfig barePost ''https://example.com/p'')) = None
   \<and> (\<exists>im. bp_image (generateBlogPostingSchema bareConfig barePost ''https://example.com/p'') = Some im
          \<and> si_width im = None \<and> si_height im = None)
   \<and> articleSection (generateBlogPostingSchema bareConfig barePost ''https://example.com/p'') = None
   \<and> articleSection (generateBlogPostingSchema bareConfig samplePost ''https://example.com/p'')
       = Some ''Performance''
   \<and> bp_keywords (generateBlogPostingSchema bareConfig barePost ''https://example.com/p'') = None
   \<and> ht_image (generateHowToSchema sampleShortest bareConfig bareGuide) = None
   \<and> totalTime (generateHowToSchema sampleShortest bareConfig bareGuide) = None
   \<and> totalTime (generateHowToSchema sampleShortest bareConfig (bareGuide\<lparr> estimatedTime := NaN \<rparr>)) = None
   \<and> tool (generateHowToSchema sampleShortest bareConfig bareGuide) = None
   \<and> hs_image (step (generateHowToSchema sampleShortest bareConfig bareGuide) ! 0) = None"
proof -
  have c: "logoUrl bareConfig = Some []" "socialLinks bareConfig = None"
    by (simp_all add: bareConfig_def)
  have p: "author_slug (author barePost) = []" "post_featuredImage barePost = Some sampleAsset"
    "details_image (details (asset_file (asset_fields sampleAsset))) = None"
    "category barePost = None" "tags barePost = Some []"
    by (simp_all add: barePost_def samplePost_def sampleAsset_def)
  have g: "guide_featuredImage bareGuide = None" "estimatedTime bareGuide = Finite 0"
    "tools bareGuide = Some []" "0 < length (steps bareGuide)" "step_image (steps bareGuide ! 0) = None"
    by (simp_all add: bareGuide_def sampleGuide_def)
  have sc: "category samplePost = Some sampleCategory" "category_name sampleCategory = ''Performance''"
    by (simp_all add: samplePost_def sampleCategory_def)
  note t = optional_fields_omitted
    [of bareConfig barePost "''https://example.com/p''" sampleShortest bareGuide]
  note v = optional_fields_omitted
    [of bareConfig samplePost "''https://example.com/p''" sampleShortest
      "bareGuide\<lparr> estimatedTime := NaN \<rparr>"]
  have s: "hs_image (step (generateHowToSchema sampleShortest bareConfig bareGuide) ! 0) = None"
    using t g(4) g(5) by blast
  have a: "articleSection (generateBlogPostingSchema bareConfig samplePost ''https://example.com/p'')
       = Some ''Performance''"
    using v sc by simp
  have n: "totalTime (generateHowToSchema sampleShortest bareConfig (bareGuide\<lparr> estimatedTime := NaN \<rparr>)) = None"
    using v by simp
  show ?thesis
    using t s a n by (simp add: c p g)
qed

text \<open>
  C6 as stated fails for \<^verbatim>\<open>articleSection\<close>: the guard is on the category object, not
  on its name, so a category whose name is the empty string (what the content
  transformer yields for a missing name) gives the key bound to the empty string.
\<close>

theorem articleSection_empty:
  "articleSection (generateBlogPostingSchema sampleConfig
      (samplePost\<lparr> category := Some (sampleCategory\<lparr> category_name := [] \<rparr>) \<rparr>)
      ''https://example.com/blog/optimizing-lcp'') = Some []"
  by (simp add: generateBlogPostingSchema_def Let_def samplePost_def sampleAsset_def)

section \<open>Timestamps\<close>

lemma fixedDigits_length [simp]: "length (fixedDigits w n) = w"
  by (induction w arbitrary: n) simp_all

lemma fixedDigits_digits: "list_all isDigit (fixedDigits w n)"
  by (induction w arbitrary: n) (simp_all add: isDigit_digitChar)

lemma div_shift:
  fixes a k :: int
  assumes "0 \<le> k"
  shows "(a + k) div 100 \<le> a div 100 + k"
proof -
  have "(a + k) div 100 \<le> (a + k * 100) div 100"
    using assms by (intro zdiv_mono1) simp_all
  then show ?thesis by simp
qed

lemma dayFromYear_mono:
  assumes "y \<le> z"
  shows "dayFromYear y \<le> dayFromYear z"
proof -
  define k where "k = z - y"
  have k: "0 \<le> k" and z: "z = y + k" using assms by (simp_all add: k_def)
  define p q r where "p = (y - 1969) div 4" and "q = (y - 1901) div 100" and "r = (y - 1601) div 400"
  define p' q' r' where "p' = (z - 1969) div 4" and "q' = (z - 1901) div 100"
    and "r' = (z - 1601) div 400"
  have a: "p \<le> p'"
    unfolding p_def p'_def using assms by (intro zdiv_mono1) simp_all
  have "(y - 1901 + k) div 100 \<le> (y - 1901) div 100 + k"
    using k by (rule div_shift)
  then have b: "q' \<le> q + k"
    unfolding q_def q'_def z by (simp add: algebra_simps)
  have c: "r \<le> r'"
    unfolding r_def r'_def using assms by (intro zdiv_mono1) simp_all
  have "365 * (y - 1970) + p - q + r \<le> 365 * (y + k - 1970) + p' - q' + r'"
    using a b c k by (simp add: algebra_simps)
  then show ?thesis
    unfolding dayFromYear_def p_def q_def r_def p'_def q'_def r'_def z .
qed

lemma dayFromYear_less: "dayFromYear y < dayFromYear (y + 1)"
proof -
  define p q r where "p = (y - 1969) div 4" and "q = (y - 1901) div 100" and "r = (y - 1601) div 400"
  define p' q' r' where "p' = (y + 1 - 1969) div 4" and "q' = (y + 1 - 1901) div 100"
    and "r' = (y + 1 - 1601) div 400"
  have a: "p \<le> p'"
    unfolding p_def p'_def by (rule zdiv_mono1) simp_all
  have b: "q' \<le> q + 1"
    unfolding q_def q'_def by linarith
  have c: "r \<le> r'"
    unfolding r_def r'_def by (rule zdiv_mono1) simp_all
  have "365 * (y - 1970) + p - q + r < 365 * (y + 1 - 1970) + p' - q' + r'"
    using a b c by (simp add: algebra_simps)
  then show ?thesis
    unfolding dayFromYear_def p_def q_def r_def p'_def q'_def r'_def .
qed

lemma yearUpFrom_bounds:
  "dayFromYear y \<le> d \<Longrightarrow>
   dayFromYear (yearUpFrom d y) \<le> d \<and> d < dayFromYear (yearUpFrom d y + 1)"
proof (induction d y rule: yearUpFrom.induct)
  case (1 d y)
  show ?case
  proof (cases "dayFromYear (y + 1) \<le> d")
    case True
    have e: "yearUpFrom d y = yearUpFrom d (y + 1)"
      using True by (subst yearUpFrom.simps) simp
    show ?thesis unfolding e using 1 True by simp
  next
    case False
    have e: "yearUpFrom d y = y"
      using False by (subst yearUpFrom.simps) simp
    show ?thesis unfolding e using 1 False by simp
  qed
qed

lemma div_lower: "0 < m \<Longrightarrow> m * (a div m) \<le> (a::int)"
  using mult_div_mod_eq [of m a] pos_mod_sign [of m a] by linarith

lemma div_upper: "0 < m \<Longrightarrow> (a::int) < m * (a div m) + m"
  using mult_div_mod_eq [of m a] pos_mod_bound [of m a] by linarith

lemma dayFromYear_1970: "dayFromYear (1970 + k) = 365 * k + (k + 1) div 4 - (k + 69) div 100 + (k + 369) div 400"
  by (simp add: dayFromYear_def algebra_simps)

lemma leap_days_nonneg:
  fixes k :: int
  assumes "0 \<le> k"
  shows "(k + 1) div 4 - (k + 69) div 100 + (k + 369) div 400 \<le> k"
proof -
  define p q r where "p = (k + 1) div 4" and "q = (k + 69) div 100" and "r = (k + 369) div 400"
  have p: "4 * p \<le> k + 1" unfolding p_def by (rule div_lower) simp
  have r: "400 * r \<le> k + 369" unfolding r_def by (rule div_lower) simp
  have q: "0 \<le> q" unfolding q_def using assms by (simp add: pos_imp_zdiv_nonneg_iff)
  have "p - q + r \<le> k"
  proof (cases "2 \<le> k")
    case True
    then show ?thesis using p q r by linarith
  next
    case False
    then have "p \<le> 0" "r \<le> 0" using p r by linarith+
    then show ?thesis using q assms by linarith
  qed
  then show ?thesis unfolding p_def q_def r_def .
qed

lemma leap_days_neg:
  fixes k :: int
  assumes "k < 0"
  shows "(k + 1) div 4 - (k + 69) div 100 + (k + 369) div 400 \<le> 0"
proof -
  define p q r where "p = (k + 1) div 4" and "q = (k + 69) div 100" and "r = (k + 369) div 400"
  have p: "4 * p \<le> k + 1" unfolding p_def by (rule div_lower) simp
  have r: "400 * r \<le> k + 369" unfolding r_def by (rule div_lower) simp
  have q: "k + 69 < 100 * q + 100" unfolding q_def by (rule div_upper) simp
  have "p - q + r \<le> 0"
  proof (cases "k \<le> - 7")
    case True
    then show ?thesis using p q r by linarith
  next
    case False
    then have "p \<le> 0" "r \<le> 0" "0 \<le> q" using p q r assms by linarith+
    then show ?thesis by linarith
  qed
  then show ?thesis unfolding p_def q_def r_def .
qed

lemma year_start: "dayFromYear (1970 + min (d div 365) (d div 366)) \<le> d"
proof (cases "0 \<le> d")
  case True
  define k where "k = min (d div 365) (d div 366)"
  have "0 \<le> d div 365" "0 \<le> d div 366"
    using True by (simp_all add: pos_imp_zdiv_nonneg_iff)
  then have k0: "0 \<le> k" by (simp add: k_def)
  have "366 * (d div 366) \<le> d" by (rule div_lower) simp
  moreover have "k \<le> d div 366" by (simp add: k_def)
  ultimately have "366 * k \<le> d" by linarith
  then show ?thesis
    unfolding k_def [symmetric] dayFromYear_1970 using leap_days_nonneg [OF k0] by linarith
next
  case False
  define k where "k = min (d div 365) (d div 366)"
  have "365 * (d div 365) \<le> d" by (rule div_lower) simp
  moreover have kd: "k \<le> d div 365" by (simp add: k_def)
  ultimately have a: "365 * k \<le> d" by linarith
  have "d div 365 < 0" using False by (simp add: div_neg_pos_less0)
  then have "k < 0" using kd by linarith
  then show ?thesis
    unfolding k_def [symmetric] dayFromYear_1970 using leap_days_neg [of k] a by linarith
qed

lemma yearFromDay_bounds:
  "dayFromYear (yearFromDay d) \<le> d \<and> d < dayFromYear (yearFromDay d + 1)"
  unfolding yearFromDay_def by (rule yearUpFrom_bounds [OF year_start])

lemma yearFromDay_less: "d < dayFromYear z \<Longrightarrow> yearFromDay d < z"
proof (rule ccontr)
  assume d: "d < dayFromYear z" and "\<not> yearFromDay d < z"
  then have "dayFromYear z \<le> dayFromYear (yearFromDay d)"
    by (intro dayFromYear_mono) simp
  then show False using d yearFromDay_bounds [of d] by linarith
qed

lemma yearFromDay_ge: "dayFromYear z \<le> d \<Longrightarrow> z \<le> yearFromDay d"
proof (rule ccontr)
  assume d: "dayFromYear z \<le> d" and "\<not> z \<le> yearFromDay d"
  then have "dayFromYear (yearFromDay d + 1) \<le> dayFromYear z"
    by (intro dayFromYear_mono) simp
  then show False using d yearFromDay_bounds [of d] by linarith
qed

lemma yearFromDay_iff: "yearFromDay d = y \<longleftrightarrow> dayFromYear y \<le> d \<and> d < dayFromYear (y + 1)"
proof
  assume "yearFromDay d = y"
  then show "dayFromYear y \<le> d \<and> d < dayFromYear (y + 1)"
    using yearFromDay_bounds [of d] by simp
next
  assume "dayFromYear y \<le> d \<and> d < dayFromYear (y + 1)"
  then show "yearFromDay d = y"
    using yearFromDay_ge [of y d] yearFromDay_less [of d "y + 1"] by linarith
qed

lemma div_succ:
  fixes a m :: int
  assumes "1 < m"
  shows "(a + 1) div m = a div m + (if (a + 1) mod m = 0 then 1 else 0)"
proof (cases "a mod m + 1 < m")
  case True
  have e: "a + 1 = m * (a div m) + (a mod m + 1)"
    by (simp add: algebra_simps)
  have "(a + 1) div m = a div m"
    using True assms by (intro int_div_pos_eq [OF e]) simp_all
  moreover have "(a + 1) mod m = a mod m + 1"
    using True assms by (intro int_mod_pos_eq [OF e]) simp_all
  moreover have "0 \<le> a mod m" using assms by simp
  ultimately show ?thesis by simp
next
  case False
  have "a mod m < m" using assms by simp
  then have r: "a mod m = m - 1" using False by linarith
  have e: "a + 1 = m * (a div m + 1) + 0"
    using mult_div_mod_eq [of m a] r by (simp add: algebra_simps)
  have "(a + 1) div m = a div m + 1"
    using assms by (intro int_div_pos_eq [OF e]) simp_all
  moreover have "(a + 1) mod m = 0"
    using assms by (intro int_mod_pos_eq [OF e]) simp_all
  ultimately show ?thesis by simp
qed

lemma mod_shift:
  "(y - 1968) mod 4 = y mod (4::int)"
  "(y - 1900) mod 100 = y mod (100::int)"
  "(y - 1600) mod 400 = y mod (400::int)"
proof -
  have "y - 1968 = y + (- 492) * 4" "y - 1900 = y + (- 19) * 100" "y - 1600 = y + (- 4) * 400"
    by simp_all
  then show "(y - 1968) mod 4 = y mod (4::int)"
    "(y - 1900) mod 100 = y mod (100::int)"
    "(y - 1600) mod 400 = y mod (400::int)"
    by (simp_all only: mod_mult_self1)
qed

lemma mod_4_100: "(y::int) mod 100 = 0 \<Longrightarrow> y mod 4 = 0"
proof -
  assume "y mod 100 = 0"
  then have "100 dvd y" by (simp add: mod_eq_0_iff_dvd)
  moreover have "(4::int) dvd 100" by simp
  ultimately have "4 dvd y" using dvd_trans by blast
  then show ?thesis by (simp add: mod_eq_0_iff_dvd)
qed

lemma mod_100_400: "(y::int) mod 400 = 0 \<Longrightarrow> y mod 100 = 0"
proof -
  assume "y mod 400 = 0"
  then have "400 dvd y" by (simp add: mod_eq_0_iff_dvd)
  moreover have "(100::int) dvd 400" by simp
  ultimately have "100 dvd y" using dvd_trans by blast
  then show ?thesis by (simp add: mod_eq_0_iff_dvd)
qed

lemma dayFromYear_step: "dayFromYear (y + 1) - dayFromYear y = daysInYear y"
proof -
  have "y - 1969 + 1 = y - 1968" "y - 1901 + 1 = y - 1900" "y - 1601 + 1 = y - 1600"
    by simp_all
  then have m: "(y - 1969 + 1) mod 4 = y mod 4" "(y - 1901 + 1) mod 100 = y mod 100"
    "(y - 1601 + 1) mod 400 = y mod 400"
    by (simp_all only: mod_shift)
  have e: "y + 1 - 1969 = y - 1969 + 1" "y + 1 - 1901 = y - 1901 + 1" "y + 1 - 1601 = y - 1601 + 1"
    by simp_all
  have p: "(y + 1 - 1969) div 4 = (y - 1969) div 4 + (if y mod 4 = 0 then 1 else 0)"
    unfolding e using div_succ [of 4 "y - 1969"] by (simp only: m)
  have q: "(y + 1 - 1901) div 100 = (y - 1901) div 100 + (if y mod 100 = 0 then 1 else 0)"
    unfolding e using div_succ [of 100 "y - 1901"] by (simp only: m)
  have r: "(y + 1 - 1601) div 400 = (y - 1601) div 400 + (if y mod 400 = 0 then 1 else 0)"
    unfolding e using div_succ [of 400 "y - 1601"] by (simp only: m)
  have "dayFromYear (y + 1) - dayFromYear y
      = 365 + (if y mod 4 = 0 then 1 else 0) - (if y mod 100 = 0 then 1 else 0)
          + (if y mod 400 = 0 then 1 else 0)"
    unfolding dayFromYear_def p q r by (simp add: algebra_simps)
  also have "\<dots> = daysInYear y"
    using mod_4_100 [of y] mod_100_400 [of y] by (auto simp: daysInYear_def)
  finally show ?thesis .
qed

lemma daysInYear_range: "daysInYear y = 365 \<or> daysInYear y = 366"
  by (simp add: daysInYear_def)

lemma dayWithinYear_bounds:
  "0 \<le> dayWithinYear t \<and> dayWithinYear t < 365 + inLeapYear t"
proof -
  define y where "y = yearFromTime t"
  have b: "dayFromYear y \<le> dayOf t" "dayOf t < dayFromYear (y + 1)"
    unfolding y_def yearFromTime_def using yearFromDay_bounds [of "dayOf t"] by simp_all
  have l: "daysInYear y = 365 + inLeapYear t"
    using daysInYear_range [of y] by (auto simp: inLeapYear_def y_def)
  show ?thesis
    unfolding dayWithinYear_def y_def [symmetric]
    using b l dayFromYear_step [of y] by linarith
qed

lemma inLeapYear_range: "inLeapYear t = 0 \<or> inLeapYear t = 1"
  by (simp add: inLeapYear_def)

text \<open>
  The calendar fields stay within their ranges, so no digit is lost in a field of
  fixed width.
\<close>

lemma monthFromTime_range: "0 \<le> monthFromTime t \<and> monthFromTime t \<le> 11"
  by (simp add: monthFromTime_def Let_def)

lemma dateFromTime_range: "1 \<le> dateFromTime t \<and> dateFromTime t \<le> 31"
proof -
  define d l where "d = dayWithinYear t" and "l = inLeapYear t"
  have b: "0 \<le> d" "d < 365 + l" and r: "l = 0 \<or> l = 1"
    using dayWithinYear_bounds [of t] inLeapYear_range [of t] by (simp_all add: d_def l_def)
  show ?thesis
    unfolding dateFromTime_def monthFromTime_def Let_def d_def [symmetric] l_def [symmetric]
    using b r by auto
qed

lemma clock_ranges:
  "0 \<le> hourFromTime t \<and> hourFromTime t \<le> 23"
  "0 \<le> minFromTime t \<and> minFromTime t \<le> 59"
  "0 \<le> secFromTime t \<and> secFromTime t \<le> 59"
  "0 \<le> msFromTime t \<and> msFromTime t \<le> 999"
  by (simp_all add: hourFromTime_def minFromTime_def secFromTime_def msFromTime_def)

lemma dayOf_bounds: "msPerDay * dayOf t \<le> t \<and> t < msPerDay * dayOf t + msPerDay"
  unfolding dayOf_def using div_lower [of msPerDay t] div_upper [of msPerDay t]
  by (simp add: msPerDay_def)

lemma dayFromYear_values:
  "dayFromYear 0 = - 719528" "dayFromYear 10000 = 2932897"
  "dayFromYear (- 271821) = - 100000109" "dayFromYear 275761 = 100000110"
  by (simp_all add: dayFromYear_def)

lemma yearFromTime_range:
  assumes "validTimeValue t"
  shows "- 271821 \<le> yearFromTime t \<and> yearFromTime t \<le> 275760"
proof -
  have d: "- 100000000 \<le> dayOf t" "dayOf t \<le> 100000000"
    using assms dayOf_bounds [of t]
    unfolding validTimeValue_def maxTimeValue_def msPerDay_def by linarith+
  have "- 271821 \<le> yearFromDay (dayOf t)"
    using d by (intro yearFromDay_ge) (simp add: dayFromYear_values)
  moreover have "yearFromDay (dayOf t) < 275761"
    using d by (intro yearFromDay_less) (simp add: dayFromYear_values)
  ultimately show ?thesis by (simp add: yearFromTime_def)
qed

lemma year_nonneg_iff: "(0 \<le> yearFromTime t) = (- 62167219200000 \<le> t)"
proof -
  have a: "(0 \<le> yearFromDay (dayOf t)) = (dayFromYear 0 \<le> dayOf t)"
    using yearFromDay_ge [of 0 "dayOf t"] yearFromDay_less [of "dayOf t" 0] by linarith
  have c: "(- 719528 \<le> dayOf t) = (- 62167219200000 \<le> t)"
    using dayOf_bounds [of t] unfolding msPerDay_def by linarith
  show ?thesis unfolding yearFromTime_def a dayFromYear_values c ..
qed

lemma year_le_9999_iff: "(yearFromTime t \<le> 9999) = (t \<le> 253402300799999)"
proof -
  have b: "(yearFromDay (dayOf t) \<le> 9999) = (dayOf t < dayFromYear 10000)"
    using yearFromDay_ge [of 10000 "dayOf t"] yearFromDay_less [of "dayOf t" 10000] by linarith
  have d: "(dayOf t < 2932897) = (t \<le> 253402300799999)"
    using dayOf_bounds [of t] unfolding msPerDay_def by linarith
  show ?thesis unfolding yearFromTime_def b dayFromYear_values d ..
qed

lemma fourDigitYear_iff: "fourDigitYear t \<longleftrightarrow> 0 \<le> yearFromTime t \<and> yearFromTime t \<le> 9999"
  unfolding fourDigitYear_def year_nonneg_iff year_le_9999_iff ..

lemma fixedDigits_numeral:
  "fixedDigits (numeral k) n = fixedDigits (pred_numeral k) (n div 10) @ [digitChar (n mod 10)]"
  unfolding numeral_eq_Suc [of k] by (rule fixedDigits.simps(2))

lemma fixedDigits_1: "fixedDigits 1 n = [digitChar (n mod 10)]"
  using fixedDigits.simps(2) [of 0 n] by simp

lemmas fixedDigits_eval = fixedDigits_numeral fixedDigits_1

lemma isPlaceholder_simps [simp]:
  "isPlaceholder CHR ''Y''" "isPlaceholder CHR ''M''" "isPlaceholder CHR ''D''"
  "isPlaceholder CHR ''H''" "isPlaceholder CHR ''m''" "isPlaceholder CHR ''s''"
  "\<not> isPlaceholder CHR ''-''" "\<not> isPlaceholder CHR '':''" "\<not> isPlaceholder CHR ''.''"
  "\<not> isPlaceholder CHR ''T''" "\<not> isPlaceholder CHR ''Z''"
  by (simp_all add: isPlaceholder_def)

lemma isDigit_mod [simp]: "isDigit (digitChar (n mod 10))"
  by (simp add: isDigit_digitChar)

lemma matches_tail:
  "matchesFormat ''-MM-DDTHH:mm:ss.sssZ''
     (''-'' @ fixedDigits 2 a @ ''-'' @ fixedDigits 2 b @ ''T'' @ fixedDigits 2 c @ '':''
        @ fixedDigits 2 d @ '':'' @ fixedDigits 2 e @ ''.'' @ fixedDigits 3 f @ ''Z'')"
  by (simp add: fixedDigits_eval)

lemma matches_append:
  "length f1 = length s1 \<Longrightarrow>
   matchesFormat (f1 @ f2) (s1 @ s2) = (matchesFormat f1 s1 \<and> matchesFormat f2 s2)"
proof (induction f1 arbitrary: s1)
  case Nil
  then show ?case by simp
next
  case (Cons f fs)
  then show ?case by (cases s1) auto
qed

lemma matches_year4: "matchesFormat ''YYYY'' (fixedDigits 4 n)"
  by (simp add: fixedDigits_eval)

lemma matches_year6: "matchesFormat ''YYYYYY'' (fixedDigits 6 n)"
  by (simp add: fixedDigits_eval)

lemma toISOString_four:
  assumes "fourDigitYear t"
  shows "matchesFormat ''YYYY-MM-DDTHH:mm:ss.sssZ'' (toISOString t)"
proof -
  have y: "yearString (yearFromTime t) = fixedDigits 4 (nat (yearFromTime t))"
    using assms by (simp add: fourDigitYear_iff yearString_def)
  have f: "''YYYY-MM-DDTHH:mm:ss.sssZ'' = ''YYYY'' @ ''-MM-DDTHH:mm:ss.sssZ''"
    by simp
  show ?thesis
    unfolding toISOString_def y f
    by (subst matches_append) (simp_all only: fixedDigits_length matches_year4 matches_tail, simp_all)
qed

lemma toISOString_expanded:
  assumes "\<not> fourDigitYear t"
  shows "\<exists>rest. toISOString t = (if t < 0 then CHR ''-'' else CHR ''+'') # rest
          \<and> matchesFormat ''YYYYYY-MM-DDTHH:mm:ss.sssZ'' rest"
proof -
  define y where "y = yearFromTime t"
  have r: "\<not> (0 \<le> y \<and> y \<le> 9999)"
    using assms by (simp add: fourDigitYear_iff y_def)
  have s: "(y < 0) = (t < 0)"
    using year_nonneg_iff [of t] assms unfolding y_def fourDigitYear_def by linarith
  have f: "''YYYYYY-MM-DDTHH:mm:ss.sssZ'' = ''YYYYYY'' @ ''-MM-DDTHH:mm:ss.sssZ''"
    by simp
  define rest where "rest = fixedDigits 6 (nat \<bar>y\<bar>) @ ''-''
       @ fixedDigits 2 (nat (monthFromTime t + 1)) @ ''-''
       @ fixedDigits 2 (nat (dateFromTime t)) @ ''T'' @ fixedDigits 2 (nat (hourFromTime t)) @ '':''
       @ fixedDigits 2 (nat (minFromTime t)) @ '':'' @ fixedDigits 2 (nat (secFromTime t)) @ ''.''
       @ fixedDigits 3 (nat (msFromTime t)) @ ''Z''"
  have ys: "yearString y = (if t < 0 then CHR ''-'' else CHR ''+'') # fixedDigits 6 (nat \<bar>y\<bar>)"
    using r s by (auto simp: yearString_def)
  have "toISOString t = (if t < 0 then CHR ''-'' else CHR ''+'') # rest"
    unfolding toISOString_def y_def [symmetric] ys rest_def by simp
  moreover have "matchesFormat ''YYYYYY-MM-DDTHH:mm:ss.sssZ'' rest"
    unfolding rest_def f
    by (subst matches_append) (simp_all only: fixedDigits_length matches_year6 matches_tail, simp_all)
  ultimately show ?thesis by blast
qed

lemma sample_2024: "toISOString 1705312800000 = ''2024-01-15T10:00:00.000Z''"
proof -
  have d: "dayOf 1705312800000 = 19737"
    by (simp add: dayOf_def msPerDay_def)
  have y: "yearFromTime 1705312800000 = 2024"
    unfolding yearFromTime_def d yearFromDay_iff by (simp add: dayFromYear_def)
  have w: "dayWithinYear 1705312800000 = 14" "inLeapYear 1705312800000 = 1"
    by (simp_all add: dayWithinYear_def inLeapYear_def d y dayFromYear_def daysInYear_def)
  have m: "monthFromTime 1705312800000 = 0" "dateFromTime 1705312800000 = 15"
    by (simp_all add: monthFromTime_def dateFromTime_def w)
  have c: "hourFromTime 1705312800000 = 10" "minFromTime 1705312800000 = 0"
    "secFromTime 1705312800000 = 0" "msFromTime 1705312800000 = 0"
    by (simp_all add: hourFromTime_def minFromTime_def secFromTime_def msFromTime_def)
  show ?thesis
    by (simp add: toISOString_def y m c yearString_def fixedDigits_eval digitChar_def)
qed

lemma sample_10000: "toISOString 253402300800000 = ''+010000-01-01T00:00:00.000Z''"
proof -
  have d: "dayOf 253402300800000 = 2932897"
    by (simp add: dayOf_def msPerDay_def)
  have y: "yearFromTime 253402300800000 = 10000"
    unfolding yearFromTime_def d yearFromDay_iff by (simp add: dayFromYear_def)
  have w: "dayWithinYear 253402300800000 = 0" "inLeapYear 253402300800000 = 1"
    by (simp_all add: dayWithinYear_def inLeapYear_def d y dayFromYear_def daysInYear_def)
  have m: "monthFromTime 253402300800000 = 0" "dateFromTime 253402300800000 = 1"
    by (simp_all add: monthFromTime_def dateFromTime_def w)
  have c: "hourFromTime 253402300800000 = 0" "minFromTime 253402300800000 = 0"
    "secFromTime 253402300800000 = 0" "msFromTime 253402300800000 = 0"
    by (simp_all add: hourFromTime_def minFromTime_def secFromTime_def msFromTime_def)
  show ?thesis
    by (simp add: toISOString_def y m c yearString_def fixedDigits_eval digitChar_def)
qed

text \<open>
  What the function does on every input. An input without a time value, a string that
  does not parse or an invalid \<^verbatim>\<open>Date\<close>, makes it throw the invalid-timestamp error,
  with no fallback. Every other input gives the \<^verbatim>\<open>toISOString\<close> rendering of its
  time value: of the form \<^verbatim>\<open>YYYY-MM-DDTHH:mm:ss.sssZ\<close> for the years 0 to 9999, and
  with a sign and a six-digit year before and after them.
\<close>

lemma formatSitemapTimestamp_result:
  "(timeValue dateParse ts = None \<longrightarrow>
      formatSitemapTimestamp dateParse ts
        = Inl (InvalidTimestamp (''Invalid timestamp: '' @ timestampText ts)))
   \<and> (\<forall>t. timeValue dateParse ts = Some t \<and> validTimeValue t \<longrightarrow>
        formatSitemapTimestamp dateParse ts = Inr (toISOString t)
        \<and> (fourDigitYear t \<longrightarrow> matchesFormat ''YYYY-MM-DDTHH:mm:ss.sssZ'' (toISOString t))
        \<and> (\<not> fourDigitYear t \<longrightarrow>
             (\<exists>rest. toISOString t = (if t < 0 then CHR ''-'' else CHR ''+'') # rest
                \<and> matchesFormat ''YYYYYY-MM-DDTHH:mm:ss.sssZ'' rest)))"
  using toISOString_four toISOString_expanded
  by (simp add: formatSitemapTimestamp_def)

lemma formatSitemapTimestamp_result_example:
  "formatSitemapTimestamp sampleDateParse (DateObj (Some 1705312800000)) = Inr ''2024-01-15T10:00:00.000Z''
   \<and> formatSitemapTimestamp sampleDateParse (Str ''2024-01-15T10:00:00Z'') = Inr ''2024-01-15T10:00:00.000Z''
   \<and> matchesFormat ''YYYY-MM-DDTHH:mm:ss.sssZ'' ''2024-01-15T10:00:00.000Z''
   \<and> formatSitemapTimestamp sampleDateParse (Str ''invalid'')
        = Inl (InvalidTimestamp ''Invalid timestamp: invalid'')"
proof -
  note a = formatSitemapTimestamp_result [of sampleDateParse "DateObj (Some 1705312800000)"]
  note b = formatSitemapTimestamp_result [of sampleDateParse "Str ''2024-01-15T10:00:00Z''"]
  note c = formatSitemapTimestamp_result [of sampleDateParse "Str ''invalid''"]
  have v: "validTimeValue 1705312800000" "fourDigitYear 1705312800000"
    by (simp_all add: validTimeValue_def maxTimeValue_def fourDigitYear_def)
  have ta: "timeValue sampleDateParse (DateObj (Some 1705312800000)) = Some 1705312800000"
    and tb: "timeValue sampleDateParse (Str ''2024-01-15T10:00:00Z'') = Some 1705312800000"
    and tc: "timeValue sampleDateParse (Str ''invalid'') = None"
    and xc: "timestampText (Str ''invalid'') = ''invalid''"
    by (simp_all add: timeValue_def sampleDateParse_def timestampText_def)
  have 1: "formatSitemapTimestamp sampleDateParse (DateObj (Some 1705312800000)) = Inr ''2024-01-15T10:00:00.000Z''"
    using a ta v unfolding sample_2024 [symmetric] by blast
  have 2: "formatSitemapTimestamp sampleDateParse (Str ''2024-01-15T10:00:00Z'') = Inr ''2024-01-15T10:00:00.000Z''"
    using b tb v unfolding sample_2024 [symmetric] by blast
  have 3: "matchesFormat ''YYYY-MM-DDTHH:mm:ss.sssZ'' ''2024-01-15T10:00:00.000Z''"
    using a ta v unfolding sample_2024 [symmetric] by blast
  have 4: "formatSitemapTimestamp sampleDateParse (Str ''invalid'')
        = Inl (InvalidTimestamp ''Invalid timestamp: invalid'')"
    using c tc xc by simp
  show ?thesis using 1 2 3 4 by blast
qed

text \<open>
  C3. The first millisecond of the year 10000 is a valid date: the validity check lets
  it through, and the result is the \<^verbatim>\<open>toISOString\<close> rendering with a sign and a
  six-digit year. That is not of the form \<^verbatim>\<open>YYYY-MM-DDTHH:mm:ss.sssZ\<close>, and not a W3C
  datetime, whose year has four digits.
\<close>

theorem formatSitemapTimestamp_expanded_year:
  "validTimeValue 253402300800000
   \<and> timeValue sampleDateParse (DateObj (Some 253402300800000)) = Some 253402300800000
   \<and> formatSitemapTimestamp sampleDateParse (DateObj (Some 253402300800000))
        = Inr ''+010000-01-01T00:00:00.000Z''
   \<and> \<not> matchesFormat ''YYYY-MM-DDTHH:mm:ss.sssZ'' ''+010000-01-01T00:00:00.000Z''"
  by (simp add: validTimeValue_def maxTimeValue_def formatSitemapTimestamp_def timeValue_def
      sample_10000 isDigit_def)

end
